theory Spec2Isabelle
  imports Main "HOL-Library.Word"
begin

unbundle bit_operations_syntax

section \<open>Python values and exceptions\<close>

text \<open>
  The userspace side of ebpH is Python over ctypes. Python integers are unbounded
  (\<open>int\<close>); a ctypes field of type \<open>c_uint8\<close> or \<open>c_uint64\<close> is a machine word, and
  storing a Python integer into it keeps the low bits. \<open>bytes\<close> are lists of bytes.
  Every exception that a function of the source can raise is a value of \<open>py_error\<close>.
  \<open>KeyboardInterrupt\<close> and \<open>SystemExit\<close> derive from \<open>BaseException\<close> and not from
  \<open>Exception\<close>, so a clause \<open>except Exception\<close> does not catch them; \<open>is_Exception\<close>
  is \<open>isinstance(e, Exception)\<close>.
\<close>

type_synonym byte = "8 word"
type_synonym u32 = "32 word"
type_synonym u64 = "64 word"
type_synonym bytes = "byte list"

datatype py_error =
    KeyError | IndexError | ValueError | RuntimeError | AttributeError | AssertionError
  | TypeError | UnicodeEncodeError | KeyboardInterrupt | SystemExit

fun is_Exception :: "py_error \<Rightarrow> bool" where
  "is_Exception KeyboardInterrupt = False"
| "is_Exception SystemExit = False"
| "is_Exception e = True"

section \<open>Enumerations of \<open>structs.py\<close>\<close>

text \<open>
  An \<open>IntEnum\<close> class body is a list of \<open>NAME = value\<close> lines, where the value is an
  integer literal or \<open>auto()\<close>. For integer members \<open>auto()\<close> is the previous member's
  value plus one (and 1 when there is no previous member). \<open>enum_members\<close> assigns the
  values in declaration order; \<open>unique\<close> is the decorator of that name, which raises
  \<open>ValueError\<close> when two members share a value.
\<close>

datatype enum_value = Explicit int | auto

fun enum_assign :: "int option \<Rightarrow> (string \<times> enum_value) list \<Rightarrow> (string \<times> int) list" where
  "enum_assign prev [] = []"
| "enum_assign prev ((n, Explicit v) # ds) = (n, v) # enum_assign (Some v) ds"
| "enum_assign prev ((n, auto) # ds) =
     (let v = (case prev of None \<Rightarrow> 1 | Some l \<Rightarrow> l + 1)
      in (n, v) # enum_assign (Some v) ds)"

definition enum_members :: "(string \<times> enum_value) list \<Rightarrow> (string \<times> int) list" where
  "enum_members ds = enum_assign None ds"

definition unique :: "(string \<times> int) list \<Rightarrow> py_error + (string \<times> int) list" where
  "unique ms = (if distinct (map snd ms) then Inr ms else Inl ValueError)"

text \<open>Calling the enum class on a value, \<open>E(num)\<close>: the member with that value, or \<open>ValueError\<close>.\<close>

definition enum_call :: "(string \<times> int) list \<Rightarrow> int \<Rightarrow> py_error + (string \<times> int)" where
  "enum_call ms num =
     (case find (\<lambda>m. snd m = num) ms of None \<Rightarrow> Inl ValueError | Some m \<Rightarrow> Inr m)"

text \<open>\<open>str.lower()\<close> on ASCII text.\<close>

definition lower_char :: "char \<Rightarrow> char" where
  "lower_char c =
     (if 65 \<le> (of_char c :: nat) \<and> (of_char c :: nat) \<le> 90
      then char_of (of_char c + (32::nat)) else c)"

definition lower :: "string \<Rightarrow> string" where
  "lower s = map lower_char s"

subsection \<open>\<open>EBPH_PROFILE_STATUS\<close>\<close>

datatype EBPH_PROFILE_STATUS = TRAINING | FROZEN | NORMAL

fun status_value :: "EBPH_PROFILE_STATUS \<Rightarrow> int" where
  "status_value TRAINING = 0x1"
| "status_value FROZEN = 0x2"
| "status_value NORMAL = 0x4"

text \<open>
  An \<open>IntFlag\<close> combines with \<open>|\<close> and is tested with \<open>&\<close>. \<open>flags_or\<close> is
  \<open>f1 | f2 | ...\<close> (0 for no flag); \<open>status_byte\<close> stores the result in the
  \<open>c_uint8\<close> status field, and \<open>has_flag s f\<close> is the test \<open>s & f\<close> on a field value.
\<close>

fun flags_or :: "EBPH_PROFILE_STATUS list \<Rightarrow> int" where
  "flags_or [] = 0"
| "flags_or (f # fs) = status_value f OR flags_or fs"

definition status_byte :: "EBPH_PROFILE_STATUS list \<Rightarrow> byte" where
  "status_byte fs = word_of_int (flags_or fs)"

definition has_flag :: "byte \<Rightarrow> EBPH_PROFILE_STATUS \<Rightarrow> bool" where
  "has_flag s f = (uint s AND status_value f \<noteq> 0)"

subsection \<open>\<open>EBPH_SETTINGS\<close>\<close>

definition EBPH_SETTINGS_decl :: "(string \<times> enum_value) list" where
  "EBPH_SETTINGS_decl =
    [(''MONITORING'', Explicit 0),
     (''LOG_SEQUENCES'', auto),
     (''NORMAL_WAIT'', auto),
     (''NORMAL_FACTOR'', auto),
     (''NORMAL_FACTOR_DEN'', auto),
     (''ANOMALY_LIMIT'', auto),
     (''TOLERIZE_LIMIT'', auto),
     (''ENFORCING'', auto)]"

definition EBPH_SETTINGS :: "(string \<times> int) list" where
  "EBPH_SETTINGS = enum_members EBPH_SETTINGS_decl"

subsection \<open>\<open>EBPH_LSM\<close>\<close>

definition EBPH_LSM_decl :: "(string \<times> enum_value) list" where
  "EBPH_LSM_decl =
    [(''BPRM_CHECK_SECURITY'', Explicit 0),
     (''TASK_ALLOC'', auto),
     (''TASK_FREE'', auto),
     (''TASK_SETPGID'', auto),
     (''TASK_GETPGID'', auto),
     (''TASK_GETSID'', auto),
     (''TASK_SETNICE'', auto),
     (''TASK_SETIOPRIO'', auto),
     (''TASK_GETIOPRIO'', auto),
     (''TASK_PRLIMIT'', auto),
     (''TASK_SETRLIMIT'', auto),
     (''TASK_SETSCHEDULER'', auto),
     (''TASK_GETSCHEDULER'', auto),
     (''TASK_MOVEMEMORY'', auto),
     (''TASK_KILL'', auto),
     (''TASK_PRCTL'', auto),
     (''SB_STATFS'', auto),
     (''SB_MOUNT'', auto),
     (''SB_REMOUNT'', auto),
     (''SB_UMOUNT'', auto),
     (''SB_PIVOTROOT'', auto),
     (''MOVE_MOUNT'', auto),
     (''INODE_CREATE'', auto),
     (''INODE_LINK'', auto),
     (''INODE_SYMLINK'', auto),
     (''INODE_MKDIR'', auto),
     (''INODE_RMDIR'', auto),
     (''INODE_MKNOD'', auto),
     (''INODE_RENAME'', auto),
     (''INODE_READLINK'', auto),
     (''INODE_FOLLOW_LINK'', auto),
     (''INODE_PERMISSION'', auto),
     (''INODE_SETATTR'', auto),
     (''INODE_GETATTR'', auto),
     (''INODE_SETXATTR'', auto),
     (''INODE_GETXATTR'', auto),
     (''INODE_LISTXATTR'', auto),
     (''INODE_REMOVEXATTR'', auto),
     (''FILE_PERMISSION'', auto),
     (''FILE_IOCTL'', auto),
     (''MMAP_ADDR'', auto),
     (''MMAP_FILE'', auto),
     (''FILE_MPROTECT'', auto),
     (''FILE_LOCK'', auto),
     (''FILE_FCNTL'', auto),
     (''FILE_SEND_SIGIOTASK'', auto),
     (''FILE_RECEIVE'', auto),
     (''UNIX_STREAM_CONNECT'', auto),
     (''UNIX_MAY_SEND'', auto),
     (''SOCKET_CREATE'', auto),
     (''SOCKET_SOCKETPAIR'', auto),
     (''SOCKET_BIND'', auto),
     (''SOCKET_CONNECT'', auto),
     (''SOCKET_LISTEN'', auto),
     (''SOCKET_ACCEPT'', auto),
     (''SOCKET_SENDMSG'', auto),
     (''SOCKET_RECVMSG'', auto),
     (''SOCKET_GETSOCKNAME'', auto),
     (''SOCKET_GETPEERNAME'', auto),
     (''SOCKET_GETSOCKOPT'', auto),
     (''SOCKET_SETSOCKOPT'', auto),
     (''SOCKET_SHUTDOWN'', auto),
     (''TUN_DEV_CREATE'', auto),
     (''TUN_DEV_ATTACH'', auto),
     (''KEY_ALLOC'', auto),
     (''KEY_FREE'', auto),
     (''KEY_PERMISSION'', auto),
     (''IPC_PERMISSION'', auto),
     (''MSG_QUEUE_ASSOCIATE'', auto),
     (''MSG_QUEUE_MSGCTL'', auto),
     (''MSG_QUEUE_MSGSND'', auto),
     (''MSG_QUEUE_MSGRCV'', auto),
     (''SHM_ASSOCIATE'', auto),
     (''SHM_SHMCTL'', auto),
     (''SHM_SHMAT'', auto),
     (''PTRACE_ACCESS_CHECK'', auto),
     (''PTRACE_TRACEME'', auto),
     (''CAPGET'', auto),
     (''CAPSET'', auto),
     (''CAPABLE'', auto),
     (''QUOTACTL'', auto),
     (''QUOTA_ON'', auto),
     (''SYSLOG'', auto),
     (''SETTIME'', auto),
     (''VM_ENOUGH_MEMORY'', auto),
     (''BPF'', auto),
     (''BPF_MAP'', auto),
     (''BPF_PROG'', auto),
     (''PERF_EVENT_OPEN'', auto),
     (''LSM_MAX'', auto)]"

definition EBPH_LSM :: "(string \<times> int) list" where
  "EBPH_LSM = enum_members EBPH_LSM_decl"

text \<open>
  \<open>EBPH_LSM.get_name\<close>: \<open>EBPH_LSM(num).name.lower()\<close>, with the \<open>ValueError\<close> of an
  integer that is no member's value caught; any other exception would propagate.
\<close>

definition get_name :: "int \<Rightarrow> py_error + string" where
  "get_name num =
     (case enum_call EBPH_LSM num of
        Inr m \<Rightarrow> Inr (lower (fst m))
      | Inl ValueError \<Rightarrow> Inr ''empty''
      | Inl e \<Rightarrow> Inl e)"

text \<open>\<open>NUM_LSM = int(EBPH_LSM.LSM_MAX)\<close>: the value of the member named \<open>LSM_MAX\<close>.\<close>

definition NUM_LSM :: int where
  "NUM_LSM = (case map_of EBPH_LSM ''LSM_MAX'' of Some v \<Rightarrow> v | None \<Rightarrow> 0)"

section \<open>ctypes types and structure layout\<close>

text \<open>
  The ctypes types that \<open>structs.py\<close> and \<open>libebph/__init__.py\<close> use. The fundamental
  types are scalars (\<open>is_simple\<close>: the subclasses of ctypes' \<open>_SimpleCData\<close>); \<open>t * n\<close> is
  \<open>Array t n\<close>, and a \<open>ct.Structure\<close> is the list of its \<open>_fields_\<close>. A structure without
  \<open>_pack_\<close> has the native layout of C: every field at the next multiple of its alignment,
  the whole rounded up to the largest alignment (sizes and alignments of 64-bit Linux).
\<close>

datatype ctype =
    c_uint8 | c_uint32 | c_uint64 | c_int | c_char | c_char_p
  | Array ctype nat
  | Structure "(string \<times> ctype) list"

fun is_simple :: "ctype \<Rightarrow> bool" where
  "is_simple (Array t n) = False"
| "is_simple (Structure fs) = False"
| "is_simple t = True"

definition round_up :: "nat \<Rightarrow> nat \<Rightarrow> nat" where
  "round_up n a = ((n + a - 1) div a) * a"

fun alignment :: "ctype \<Rightarrow> nat" where
  "alignment c_uint8 = 1"
| "alignment c_uint32 = 4"
| "alignment c_uint64 = 8"
| "alignment c_int = 4"
| "alignment c_char = 1"
| "alignment c_char_p = 8"
| "alignment (Array t n) = alignment t"
| "alignment (Structure fs) = fold max (map (\<lambda>f. alignment (snd f)) fs) 1"

fun sizeof :: "ctype \<Rightarrow> nat" where
  "sizeof c_uint8 = 1"
| "sizeof c_uint32 = 4"
| "sizeof c_uint64 = 8"
| "sizeof c_int = 4"
| "sizeof c_char = 1"
| "sizeof c_char_p = 8"
| "sizeof (Array t n) = sizeof t * n"
| "sizeof (Structure fs) =
     round_up (fold (\<lambda>f off. round_up off (alignment (snd f)) + sizeof (snd f)) fs 0)
              (alignment (Structure fs))"

fun field_offsets :: "nat \<Rightarrow> (string \<times> ctype) list \<Rightarrow> (string \<times> nat) list" where
  "field_offsets off [] = []"
| "field_offsets off ((n, t) # fs) =
     (let at = round_up off (alignment t) in (n, at) # field_offsets (at + sizeof t) fs)"

text \<open>
  A \<open>c_char\<close> array field is read and written as a C string. Reading gives the bytes before
  the first NUL, or the whole buffer when it has none. Writing takes the bytes of the value
  before its first NUL (ctypes measures the value with \<open>strlen\<close>), raises \<open>ValueError\<close>
  when they are more than the capacity, and copies them to the start of the buffer, with a
  terminating NUL when there is room for it; the rest of the buffer stays as it was.
\<close>

definition s_get :: "bytes \<Rightarrow> bytes" where
  "s_get buf = takeWhile (\<lambda>b. b \<noteq> 0) buf"

definition s_set :: "bytes \<Rightarrow> bytes \<Rightarrow> py_error + bytes" where
  "s_set buf v =
     (let data = takeWhile (\<lambda>b. b \<noteq> 0) v; size = length data; cap = length buf
      in if size < cap then Inr (data @ [0] @ drop (size + 1) buf)
         else if size > cap then Inl ValueError
         else Inr data)"

text \<open>
  \<open>ct.memmove(dst, src, count)\<close> copies \<open>count\<close> bytes over the start of \<open>dst\<close> and returns
  the address of \<open>dst\<close>. The destination is a live ctypes object, so the address is not
  null and the returned value is true; the pair is that truth value and the new contents.
\<close>

definition memmove :: "bytes \<Rightarrow> bytes \<Rightarrow> nat \<Rightarrow> bool \<times> bytes" where
  "memmove dst src n = (True, take n src @ drop n dst)"

section \<open>The profile magic number\<close>

text \<open>\<open>s.split(sep)\<close> for a one-character separator, and \<open>sep.join(parts)\<close>.\<close>

fun split_acc :: "char \<Rightarrow> string \<Rightarrow> string \<Rightarrow> string list" where
  "split_acc sep acc [] = [rev acc]"
| "split_acc sep acc (c # cs) =
     (if c = sep then rev acc # split_acc sep [] cs else split_acc sep (c # acc) cs)"

definition split :: "string \<Rightarrow> char \<Rightarrow> string list" where
  "split s sep = split_acc sep [] s"

fun join :: "string \<Rightarrow> string list \<Rightarrow> string" where
  "join sep [] = []"
| "join sep [w] = w"
| "join sep (w # ws) = w @ sep @ join sep ws"

text \<open>\<open>s.encode('ascii')\<close>: the bytes of the text, or \<open>UnicodeEncodeError\<close> for a character above 127.\<close>

definition encode_ascii :: "string \<Rightarrow> py_error + bytes" where
  "encode_ascii s =
     (if list_all (\<lambda>c. (of_char c :: nat) < 128) s then Inr (map of_char s)
      else Inl UnicodeEncodeError)"

text \<open>
  \<open>calculate_profile_magic\<close>. The version text \<open>ebph.version.__version__\<close> is not among the
  sources, and \<open>hashlib.sha256\<close> is the standard library's: both are parameters, the hash as
  the function \<open>sha256_int\<close> from a message to \<open>int(sha256(message).hexdigest(), 16)\<close>.
\<close>

definition calculate_profile_magic :: "(bytes \<Rightarrow> nat) \<Rightarrow> string \<Rightarrow> py_error + nat" where
  "calculate_profile_magic sha256_int version =
     (case encode_ascii (join ''.'' (take 2 (split version (CHR ''.'')))) of
        Inl e \<Rightarrow> Inl e
      | Inr v \<Rightarrow> Inr (sha256_int v AND 0xFFFFFFFFFFFFFFFF))"

section \<open>The profile structures\<close>

text \<open>\<open>sys.maxsize\<close> of a 64-bit CPython.\<close>

definition sys_maxsize :: int where
  "sys_maxsize = 2 ^ 63 - 1"

definition flags_len :: nat where
  "flags_len = nat ((NUM_LSM * NUM_LSM) AND sys_maxsize)"

definition EBPHProfileDataStruct_fields :: "(string \<times> ctype) list" where
  "EBPHProfileDataStruct_fields = [(''flags'', Array c_uint8 flags_len)]"

text \<open>\<open>defs.PATH_MAX\<close> is not among the sources: the capacity of \<open>exe\<close> is a parameter.\<close>

definition EBPHProfileStruct_fields :: "nat \<Rightarrow> (string \<times> ctype) list" where
  "EBPHProfileStruct_fields PATH_MAX =
    [(''magic'', c_uint64),
     (''profile_key'', c_uint64),
     (''status'', c_uint8),
     (''anomaly_count'', c_uint64),
     (''train_count'', c_uint64),
     (''last_mod_count'', c_uint64),
     (''sequences'', c_uint64),
     (''normal_time'', c_uint64),
     (''count'', c_uint64),
     (''train'', Structure EBPHProfileDataStruct_fields),
     (''test'', Structure EBPHProfileDataStruct_fields),
     (''exe'', Array c_char PATH_MAX)]"

text \<open>
  The structures as values: a word for each integer field, the bytes of the \<open>flags\<close> array,
  and for \<open>exe\<close> the bytes of its buffer (\<open>s_get\<close> reads the field, \<open>s_set\<close> writes it).
\<close>

record EBPHProfileDataStruct =
  flags :: bytes

record EBPHProfileStruct =
  magic :: u64
  profile_key :: u64
  status :: byte
  anomaly_count :: u64
  train_count :: u64
  last_mod_count :: u64
  sequences :: u64
  normal_time :: u64
  count :: u64
  train :: EBPHProfileDataStruct
  test :: EBPHProfileDataStruct
  exe :: bytes

text \<open>A new ctypes structure is zero-filled.\<close>

definition new_EBPHProfileDataStruct :: EBPHProfileDataStruct where
  "new_EBPHProfileDataStruct = \<lparr>flags = replicate flags_len 0\<rparr>"

definition new_EBPHProfileStruct :: "nat \<Rightarrow> EBPHProfileStruct" where
  "new_EBPHProfileStruct PATH_MAX =
     \<lparr>magic = 0, profile_key = 0, status = 0, anomaly_count = 0, train_count = 0,
      last_mod_count = 0, sequences = 0, normal_time = 0, count = 0,
      train = new_EBPHProfileDataStruct, test = new_EBPHProfileDataStruct,
      exe = replicate PATH_MAX 0\<rparr>"

text \<open>The sizes that ctypes fixes for every instance of the two structures.\<close>

definition wf_data :: "EBPHProfileDataStruct \<Rightarrow> bool" where
  "wf_data d = (length (flags d) = flags_len)"

definition wf_profile :: "nat \<Rightarrow> EBPHProfileStruct \<Rightarrow> bool" where
  "wf_profile PATH_MAX p =
     (wf_data (train p) \<and> wf_data (test p) \<and> length (exe p) = PATH_MAX)"

section \<open>The BPF maps\<close>

text \<open>
  Modelled from the spec: the leaf type of the \<open>profiles\<close> map is declared by the BPF
  program, which is not among the sources. \<open>from_bpf\<close> and \<open>load_into_bpf\<close> use its fields
  \<open>status\<close>, \<open>anomaly_count\<close>, \<open>train_count\<close>, \<open>last_mod_count\<close>, \<open>sequences\<close>,
  \<open>normal_time\<close> and \<open>count\<close>; the spec gives \<open>status\<close> one byte and each counter eight.
\<close>

record profile_leaf =
  leaf_status :: byte
  leaf_anomaly_count :: u64
  leaf_train_count :: u64
  leaf_last_mod_count :: u64
  leaf_sequences :: u64
  leaf_normal_time :: u64
  leaf_count :: u64

definition new_profile_leaf :: profile_leaf where
  "new_profile_leaf =
     \<lparr>leaf_status = 0, leaf_anomaly_count = 0, leaf_train_count = 0, leaf_last_mod_count = 0,
      leaf_sequences = 0, leaf_normal_time = 0, leaf_count = 0\<rparr>"

text \<open>
  The three tables that the source reads and writes, each keyed by \<open>c_uint64(profile_key)\<close>.
  \<open>table[key]\<close> raises \<open>KeyError\<close> for a key that is not in the table.
\<close>

record BPF =
  profiles :: "u64 \<rightharpoonup> profile_leaf"
  training_data :: "u64 \<rightharpoonup> EBPHProfileDataStruct"
  testing_data :: "u64 \<rightharpoonup> EBPHProfileDataStruct"

definition getitem :: "('k \<rightharpoonup> 'v) \<Rightarrow> 'k \<Rightarrow> py_error + 'v" where
  "getitem table k = (case table k of None \<Rightarrow> Inl KeyError | Some v \<Rightarrow> Inr v)"

section \<open>\<open>EBPHProfileStruct.from_bpf\<close> and \<open>load_into_bpf\<close>\<close>

text \<open>
  One of the two \<open>try\<close> blocks of \<open>from_bpf\<close>: look the key up in a data table and copy the
  leaf over the profile's matrix \<open>mine\<close>; a missing key leaves the matrix as it is.
\<close>

definition copy_from_table ::
  "(u64 \<rightharpoonup> EBPHProfileDataStruct) \<Rightarrow> u64 \<Rightarrow> EBPHProfileDataStruct \<Rightarrow> py_error + EBPHProfileDataStruct" where
  "copy_from_table table k mine =
     (case getitem table k of
        Inl KeyError \<Rightarrow> Inr mine
      | Inl IndexError \<Rightarrow> Inr mine
      | Inl e \<Rightarrow> Inl e
      | Inr leaf \<Rightarrow>
          (case memmove (flags mine) (flags leaf) (length (flags mine)) of
             (ok, copied) \<Rightarrow>
               if \<not> ok then Inl RuntimeError else Inr (mine\<lparr>flags := copied\<rparr>)))"

definition from_bpf ::
  "(bytes \<Rightarrow> nat) \<Rightarrow> string \<Rightarrow> nat \<Rightarrow> BPF \<Rightarrow> bytes \<Rightarrow> int \<Rightarrow> py_error + EBPHProfileStruct" where
  "from_bpf sha256_int version PATH_MAX bpf exe_arg key =
     (let profile = new_EBPHProfileStruct PATH_MAX in
      case calculate_profile_magic sha256_int version of
        Inl e \<Rightarrow> Inl e
      | Inr m \<Rightarrow>
     (let profile = profile\<lparr>magic := word_of_nat m\<rparr>;
          profile = profile\<lparr>profile_key := word_of_int key\<rparr> in
      case s_set (exe profile) exe_arg of
        Inl e \<Rightarrow> Inl e
      | Inr buf \<Rightarrow>
     (let profile = profile\<lparr>exe := buf\<rparr> in
      case getitem (profiles bpf) (word_of_int key) of
        Inl KeyError \<Rightarrow> Inl KeyError
      | Inl IndexError \<Rightarrow> Inl KeyError
      | Inl e \<Rightarrow> Inl e
      | Inr bpf_profile \<Rightarrow>
     (let profile = profile
            \<lparr>status := word_of_int (uint (leaf_status bpf_profile)),
             anomaly_count := word_of_int (uint (leaf_anomaly_count bpf_profile)),
             train_count := word_of_int (uint (leaf_train_count bpf_profile)),
             last_mod_count := word_of_int (uint (leaf_last_mod_count bpf_profile)),
             sequences := word_of_int (uint (leaf_sequences bpf_profile)),
             normal_time := word_of_int (uint (leaf_normal_time bpf_profile)),
             count := word_of_int (uint (leaf_count bpf_profile))\<rparr> in
      case copy_from_table (training_data bpf) (word_of_int key) (train profile) of
        Inl e \<Rightarrow> Inl e
      | Inr tr \<Rightarrow>
     (let profile = profile\<lparr>train := tr\<rparr> in
      case copy_from_table (testing_data bpf) (word_of_int key) (test profile) of
        Inl e \<Rightarrow> Inl e
      | Inr te \<Rightarrow> Inr (profile\<lparr>test := te\<rparr>))))))"

text \<open>
  One of the two blocks of \<open>load_into_bpf\<close> that store a matrix: a new zero-filled leaf, the
  matrix \<open>mine\<close> copied over it, and the table updated at the key.
\<close>

definition copy_into_table ::
  "(u64 \<rightharpoonup> EBPHProfileDataStruct) \<Rightarrow> u64 \<Rightarrow> EBPHProfileDataStruct
     \<Rightarrow> py_error + (u64 \<rightharpoonup> EBPHProfileDataStruct)" where
  "copy_into_table table k mine =
     (let leaf = new_EBPHProfileDataStruct in
      case memmove (flags leaf) (flags mine) (length (flags mine)) of
        (ok, copied) \<Rightarrow>
          if \<not> ok then Inl RuntimeError else Inr (table(k \<mapsto> leaf\<lparr>flags := copied\<rparr>)))"

definition load_into_bpf :: "EBPHProfileStruct \<Rightarrow> BPF \<Rightarrow> py_error + BPF" where
  "load_into_bpf self bpf =
     (let bpf_profile = new_profile_leaf
            \<lparr>leaf_status := word_of_int (uint (status self)),
             leaf_anomaly_count := word_of_int (uint (anomaly_count self)),
             leaf_train_count := word_of_int (uint (train_count self)),
             leaf_last_mod_count := word_of_int (uint (last_mod_count self)),
             leaf_sequences := word_of_int (uint (sequences self)),
             leaf_normal_time := word_of_int (uint (normal_time self)),
             leaf_count := word_of_int (uint (count self))\<rparr>;
          k = word_of_int (uint (profile_key self));
          bpf = bpf\<lparr>profiles := (profiles bpf)(k \<mapsto> bpf_profile)\<rparr> in
      case copy_into_table (training_data bpf) k (train self) of
        Inl e \<Rightarrow> Inl e
      | Inr tr \<Rightarrow>
     (let bpf = bpf\<lparr>training_data := tr\<rparr> in
      case copy_into_table (testing_data bpf) k (test self) of
        Inl e \<Rightarrow> Inl e
      | Inr te \<Rightarrow> Inr (bpf\<lparr>testing_data := te\<rparr>)))"

section \<open>\<open>EBPHProfileStruct.__eq__\<close>\<close>

text \<open>
  The other operand of \<open>__eq__\<close> is any Python object. \<open>ProfileObj\<close> is a profile structure;
  \<open>AttrObj\<close> is any other object, given by what reading each attribute name does: it
  returns a value, or it raises (\<open>AttributeError\<close> for an attribute that the object does
  not have, and any exception at all for a property or a \<open>__getattr__\<close> of the object's
  class). A value is an integer, a byte string, a matrix structure, or \<open>PyRaising e\<close>: an
  object whose comparison raises \<open>e\<close>.
\<close>

datatype pyvalue = PyInt int | PyBytes bytes | PyData EBPHProfileDataStruct | PyRaising py_error

datatype pyobject = ProfileObj EBPHProfileStruct | AttrObj "string \<Rightarrow> py_error + pyvalue"

definition profile_attrs :: "EBPHProfileStruct \<Rightarrow> (string \<times> pyvalue) list" where
  "profile_attrs p =
    [(''magic'', PyInt (uint (magic p))),
     (''profile_key'', PyInt (uint (profile_key p))),
     (''status'', PyInt (uint (status p))),
     (''anomaly_count'', PyInt (uint (anomaly_count p))),
     (''train_count'', PyInt (uint (train_count p))),
     (''last_mod_count'', PyInt (uint (last_mod_count p))),
     (''sequences'', PyInt (uint (sequences p))),
     (''normal_time'', PyInt (uint (normal_time p))),
     (''count'', PyInt (uint (count p))),
     (''train'', PyData (train p)),
     (''test'', PyData (test p)),
     (''exe'', PyBytes (s_get (exe p)))]"

fun getattr :: "pyobject \<Rightarrow> string \<Rightarrow> py_error + pyvalue" where
  "getattr (ProfileObj p) name =
     (case map_of (profile_attrs p) name of None \<Rightarrow> Inl AttributeError | Some v \<Rightarrow> Inr v)"
| "getattr (AttrObj attrs) name = attrs name"

text \<open>\<open>a == b\<close>: values of different kinds are unequal, and \<open>PyRaising e\<close> raises \<open>e\<close>.\<close>

fun py_eq :: "pyvalue \<Rightarrow> pyvalue \<Rightarrow> py_error + bool" where
  "py_eq (PyRaising e) b = Inl e"
| "py_eq a (PyRaising e) = Inl e"
| "py_eq (PyInt a) (PyInt b) = Inr (a = b)"
| "py_eq (PyBytes a) (PyBytes b) = Inr (a = b)"
| "py_eq (PyData a) (PyData b) = Inr (a = b)"
| "py_eq a b = Inr False"

text \<open>\<open>assert self.name == other.name\<close>, and a statement after another.\<close>

definition assert_eq :: "pyobject \<Rightarrow> pyobject \<Rightarrow> string \<Rightarrow> py_error + unit" where
  "assert_eq self other name =
     (case getattr self name of
        Inl e \<Rightarrow> Inl e
      | Inr a \<Rightarrow>
     (case getattr other name of
        Inl e \<Rightarrow> Inl e
      | Inr b \<Rightarrow>
     (case py_eq a b of
        Inl e \<Rightarrow> Inl e
      | Inr ok \<Rightarrow> if ok then Inr () else Inl AssertionError)))"

fun asserts :: "pyobject \<Rightarrow> pyobject \<Rightarrow> string list \<Rightarrow> py_error + unit" where
  "asserts self other [] = Inr ()"
| "asserts self other (name # names) =
     (case assert_eq self other name of
        Inl e \<Rightarrow> Inl e
      | Inr u \<Rightarrow> asserts self other names)"

text \<open>
  \<open>__eq__\<close>: the nine assertions in a \<open>try\<close>. The clause \<open>except Exception\<close> turns a raise
  that is an \<open>Exception\<close> (the \<open>AssertionError\<close> of a failed assertion among them) into
  the result \<open>False\<close>; any other raise leaves \<open>__eq__\<close> as it is.
\<close>

definition eq_fields :: "string list" where
  "eq_fields =
     [''profile_key'', ''status'', ''anomaly_count'', ''train_count'', ''last_mod_count'',
      ''sequences'', ''normal_time'', ''count'', ''exe'']"

definition EBPHProfileStruct_eq :: "EBPHProfileStruct \<Rightarrow> pyobject \<Rightarrow> py_error + bool" where
  "EBPHProfileStruct_eq self other =
     (case asserts (ProfileObj self) other eq_fields of
        Inl e \<Rightarrow> if is_Exception e then Inr False else Inl e
      | Inr u \<Rightarrow> Inr True)"

section \<open>The commands of \<open>libebph\<close>\<close>

text \<open>
  The decorator \<open>command\<close> binds a Python function to the library function of the same
  name. From the function's type hints (parameter names in order, then \<open>return\<close>) it takes
  the \<open>argtypes\<close> (every hint but \<open>return\<close>) and the \<open>restype\<close> (the hint \<open>return\<close>, or
  \<open>None\<close> without one), and it enables the USDT probe of that name with the handler
  \<open>command_\<close> followed by the name. The wrapper it returns calls the library function.
\<close>

record command_binding =
  c_name :: string
  argtypes :: "ctype list"
  restype :: "ctype option"
  probe :: "string \<times> string"

definition command :: "string \<Rightarrow> (string \<times> ctype) list \<Rightarrow> command_binding" where
  "command name th =
     \<lparr>c_name = name,
      argtypes = map snd (filter (\<lambda>h. fst h \<noteq> ''return'') th),
      restype = map_of th ''return'',
      probe = (name, ''command_'' @ name)\<rparr>"

definition Lib :: "command_binding list" where
  "Lib =
    [command ''set_setting'' [(''key'', c_int), (''value'', c_uint64), (''return'', c_int)],
     command ''normalize_profile'' [(''profile_key'', c_uint64), (''return'', c_int)],
     command ''normalize_process'' [(''pid'', c_uint32), (''return'', c_int)],
     command ''sensitize_profile'' [(''profile_key'', c_uint64), (''return'', c_int)],
     command ''sensitize_process'' [(''pid'', c_uint32), (''return'', c_int)],
     command ''tolerize_profile'' [(''profile_key'', c_uint64), (''return'', c_int)],
     command ''tolerize_process'' [(''pid'', c_uint32), (''return'', c_int)],
     command ''bootstrap_process''
       [(''profile_key'', c_uint64), (''pid'', c_uint32), (''tgid'', c_uint32),
        (''pathname'', c_char_p), (''return'', c_int)]]"

subsection \<open>What the commands do\<close>

text \<open>
  Modelled from the spec: the library \<open>libebph\<close> and the BPF program that carry the commands
  out are not among the sources. The spec gives each command's outcome as success, profile
  not found or invalid argument, returned as an integer that is 0 for success and negative
  for an error. It fixes the sign of an error code and not its value: the errno numbers
  \<open>ENOENT\<close> and \<open>EINVAL\<close> stand for the two here.
\<close>

datatype command_status = Success | ProfileNotFound | InvalidArgument

text \<open>Modelled from the spec: the error code of a profile that is not found is \<open>- ENOENT\<close>.\<close>

definition ENOENT :: int where
  "ENOENT = 2"

text \<open>Modelled from the spec: the error code of an invalid argument is \<open>- EINVAL\<close>.\<close>

definition EINVAL :: int where
  "EINVAL = 22"

text \<open>
  Modelled from the spec: the integer status that a command returns, 0 for success and a
  negative error code otherwise.
\<close>

fun status_code :: "command_status \<Rightarrow> int" where
  "status_code Success = 0"
| "status_code ProfileNotFound = - ENOENT"
| "status_code InvalidArgument = - EINVAL"

text \<open>
  Modelled from the spec: the process context of a live task, with the task's thread group,
  the key of the profile it is bound to and its window of recent event codes.
\<close>

record process_context =
  ctx_tgid :: u32
  ctx_profile_key :: u64
  ctx_window :: "int list"

text \<open>
  Modelled from the spec: the engine's state. Besides the three tables of the profile store
  it has one process context for each live task, the path of each profile's executable, and
  the settings registry, keyed by setting identifier.
\<close>

record engine =
  maps :: BPF
  task_states :: "u32 \<rightharpoonup> process_context"
  pathnames :: "u64 \<rightharpoonup> bytes"
  settings :: "int \<rightharpoonup> u64"

text \<open>
  Modelled from the spec: a matrix of a profile, read from its table as \<open>from_bpf\<close> reads
  it: all zeros when the table has no leaf for the key.
\<close>

definition matrix_of :: "(u64 \<rightharpoonup> EBPHProfileDataStruct) \<Rightarrow> u64 \<Rightarrow> bytes" where
  "matrix_of table k =
     (case table k of None \<Rightarrow> flags new_EBPHProfileDataStruct | Some d \<Rightarrow> flags d)"

text \<open>Modelled from the spec: the entry of a matrix at an index, 0 beyond its end.\<close>

definition byte_at :: "bytes \<Rightarrow> nat \<Rightarrow> byte" where
  "byte_at m i = (if i < length m then m ! i else 0)"

text \<open>Modelled from the spec: the bitwise OR of two matrices, entry by entry.\<close>

definition or_flags :: "bytes \<Rightarrow> bytes \<Rightarrow> bytes" where
  "or_flags a b = map (\<lambda>i. byte_at a i OR byte_at b i) [0..<flags_len]"

text \<open>
  Modelled from the spec: \<open>normalize\<close> force-sets NORMAL, clears TRAINING and FROZEN, and
  resets \<open>last_mod_count\<close> to \<open>train_count\<close>.
\<close>

definition normalize_profile :: "u64 \<Rightarrow> engine \<Rightarrow> command_status \<times> engine" where
  "normalize_profile k e =
     (case profiles (maps e) k of
        None \<Rightarrow> (ProfileNotFound, e)
      | Some l \<Rightarrow>
          (Success,
           e\<lparr>maps := (maps e)\<lparr>profiles := (profiles (maps e))(k \<mapsto>
              l\<lparr>leaf_status :=
                   (leaf_status l AND NOT (status_byte [TRAINING, FROZEN])) OR status_byte [NORMAL],
                 leaf_last_mod_count := leaf_train_count l\<rparr>)\<rparr>\<rparr>))"

text \<open>
  Modelled from the spec: \<open>sensitize\<close> clears NORMAL and FROZEN and sets TRAINING again;
  the matrices stay as they are.
\<close>

definition sensitize_profile :: "u64 \<Rightarrow> engine \<Rightarrow> command_status \<times> engine" where
  "sensitize_profile k e =
     (case profiles (maps e) k of
        None \<Rightarrow> (ProfileNotFound, e)
      | Some l \<Rightarrow>
          (Success,
           e\<lparr>maps := (maps e)\<lparr>profiles := (profiles (maps e))(k \<mapsto>
              l\<lparr>leaf_status :=
                   (leaf_status l AND NOT (status_byte [NORMAL, FROZEN])) OR status_byte [TRAINING]\<rparr>)\<rparr>\<rparr>))"

text \<open>
  Modelled from the spec: \<open>tolerize\<close> merges all set bits of the test matrix into the train
  matrix (bitwise OR) and clears \<open>anomaly_count\<close>.
\<close>

definition tolerize_profile :: "u64 \<Rightarrow> engine \<Rightarrow> command_status \<times> engine" where
  "tolerize_profile k e =
     (case profiles (maps e) k of
        None \<Rightarrow> (ProfileNotFound, e)
      | Some l \<Rightarrow>
          (let merged = or_flags (matrix_of (training_data (maps e)) k)
                                 (matrix_of (testing_data (maps e)) k)
           in (Success,
               e\<lparr>maps := (maps e)
                    \<lparr>profiles := (profiles (maps e))(k \<mapsto> l\<lparr>leaf_anomaly_count := 0\<rparr>),
                     training_data := (training_data (maps e))(k \<mapsto> \<lparr>flags = merged\<rparr>)\<rparr>\<rparr>)))"

text \<open>
  Modelled from the spec: each \<open>*_process\<close> command resolves the task's bound profile key
  and delegates to the \<open>*_profile\<close> form; a task without a process context is a lookup
  failure.
\<close>

definition for_process ::
  "(u64 \<Rightarrow> engine \<Rightarrow> command_status \<times> engine) \<Rightarrow> u32 \<Rightarrow> engine \<Rightarrow> command_status \<times> engine" where
  "for_process profile_command pid e =
     (case task_states e pid of
        None \<Rightarrow> (ProfileNotFound, e)
      | Some ctx \<Rightarrow> profile_command (ctx_profile_key ctx) e)"

text \<open>Modelled from the spec: \<open>normalize_process\<close> is \<open>normalize_profile\<close> for the task's profile.\<close>

definition normalize_process :: "u32 \<Rightarrow> engine \<Rightarrow> command_status \<times> engine" where
  "normalize_process = for_process normalize_profile"

text \<open>Modelled from the spec: \<open>sensitize_process\<close> is \<open>sensitize_profile\<close> for the task's profile.\<close>

definition sensitize_process :: "u32 \<Rightarrow> engine \<Rightarrow> command_status \<times> engine" where
  "sensitize_process = for_process sensitize_profile"

text \<open>Modelled from the spec: \<open>tolerize_process\<close> is \<open>tolerize_profile\<close> for the task's profile.\<close>

definition tolerize_process :: "u32 \<Rightarrow> engine \<Rightarrow> command_status \<times> engine" where
  "tolerize_process = for_process tolerize_profile"

text \<open>
  Modelled from the spec: \<open>set_setting\<close> rejects an unrecognized setting key with no
  mutation, and stores the value under a recognized one.
\<close>

definition set_setting :: "32 word \<Rightarrow> u64 \<Rightarrow> engine \<Rightarrow> command_status \<times> engine" where
  "set_setting key v e =
     (if sint key \<in> set (map snd EBPH_SETTINGS)
      then (Success, e\<lparr>settings := (settings e)(sint key \<mapsto> v)\<rparr>)
      else (InvalidArgument, e))"

text \<open>
  Modelled from the spec: a malformed pathname is a null pointer, or a string that does not
  fit the bounded path with its terminating NUL.
\<close>

definition malformed :: "nat \<Rightarrow> bytes option \<Rightarrow> bool" where
  "malformed PATH_MAX pathname =
     (case pathname of None \<Rightarrow> True | Some path \<Rightarrow> PATH_MAX \<le> length (s_get path))"

text \<open>
  Modelled from the spec: \<open>bootstrap_process\<close> rejects a malformed pathname with no
  mutation. Otherwise a profile key not seen before gets a profile in TRAINING with zeroed
  counters and matrices, and the task gets a process context bound to the key, with an
  empty window.
\<close>

definition bootstrap_process ::
  "nat \<Rightarrow> u64 \<Rightarrow> u32 \<Rightarrow> u32 \<Rightarrow> bytes option \<Rightarrow> engine \<Rightarrow> command_status \<times> engine" where
  "bootstrap_process PATH_MAX k pid tgid pathname e =
     (case pathname of
        None \<Rightarrow> (InvalidArgument, e)
      | Some path \<Rightarrow>
          if malformed PATH_MAX pathname then (InvalidArgument, e)
          else
            (let e = (case profiles (maps e) k of
                        Some l \<Rightarrow> e
                      | None \<Rightarrow>
                          e\<lparr>maps := (maps e)
                               \<lparr>profiles := (profiles (maps e))(k \<mapsto>
                                  new_profile_leaf\<lparr>leaf_status := status_byte [TRAINING]\<rparr>),
                                training_data :=
                                  (training_data (maps e))(k \<mapsto> new_EBPHProfileDataStruct),
                                testing_data :=
                                  (testing_data (maps e))(k \<mapsto> new_EBPHProfileDataStruct)\<rparr>,
                            pathnames := (pathnames e)(k \<mapsto> s_get path)\<rparr>)
             in (Success,
                 e\<lparr>task_states := (task_states e)(pid \<mapsto>
                      \<lparr>ctx_tgid = tgid, ctx_profile_key = k, ctx_window = []\<rparr>)\<rparr>)))"

text \<open>
  A call of one of the eight wrappers of \<open>Lib\<close>, with arguments of the bound \<open>argtypes\<close>
  (\<open>None\<close> is the null pointer of \<open>c_char_p\<close>), and the integer that the call returns.
\<close>

datatype command_call =
    Set_setting "32 word" u64
  | Normalize_profile u64
  | Normalize_process u32
  | Sensitize_profile u64
  | Sensitize_process u32
  | Tolerize_profile u64
  | Tolerize_process u32
  | Bootstrap_process u64 u32 u32 "bytes option"

fun call_name :: "command_call \<Rightarrow> string" where
  "call_name (Set_setting key v) = ''set_setting''"
| "call_name (Normalize_profile k) = ''normalize_profile''"
| "call_name (Normalize_process pid) = ''normalize_process''"
| "call_name (Sensitize_profile k) = ''sensitize_profile''"
| "call_name (Sensitize_process pid) = ''sensitize_process''"
| "call_name (Tolerize_profile k) = ''tolerize_profile''"
| "call_name (Tolerize_process pid) = ''tolerize_process''"
| "call_name (Bootstrap_process k pid tgid pathname) = ''bootstrap_process''"

text \<open>
  Modelled from the spec: what the library function behind each wrapper does to the
  engine's state, and the outcome it reports.
\<close>

fun run_command :: "nat \<Rightarrow> command_call \<Rightarrow> engine \<Rightarrow> command_status \<times> engine" where
  "run_command PATH_MAX (Set_setting key v) e = set_setting key v e"
| "run_command PATH_MAX (Normalize_profile k) e = normalize_profile k e"
| "run_command PATH_MAX (Normalize_process pid) e = normalize_process pid e"
| "run_command PATH_MAX (Sensitize_profile k) e = sensitize_profile k e"
| "run_command PATH_MAX (Sensitize_process pid) e = sensitize_process pid e"
| "run_command PATH_MAX (Tolerize_profile k) e = tolerize_profile k e"
| "run_command PATH_MAX (Tolerize_process pid) e = tolerize_process pid e"
| "run_command PATH_MAX (Bootstrap_process k pid tgid pathname) e =
     bootstrap_process PATH_MAX k pid tgid pathname e"

text \<open>
  The wrapper returns what the library function returns, converted by the \<open>restype\<close>
  \<open>c_int\<close> to a Python integer: the status code of the outcome.
\<close>

definition call :: "nat \<Rightarrow> command_call \<Rightarrow> engine \<Rightarrow> int \<times> engine" where
  "call PATH_MAX c e = (case run_command PATH_MAX c e of (st, e') \<Rightarrow> (status_code st, e'))"

section \<open>Theorems\<close>

subsection \<open>Status flags and settings\<close>

lemma uint_status_value: "uint (word_of_int (status_value f) :: byte) = status_value f"
  by (cases f) simp_all

lemma has_flag_word: "has_flag s f = (s AND word_of_int (status_value f) \<noteq> 0)"
proof -
  have "uint s AND status_value f = uint (s AND word_of_int (status_value f))"
    by (simp add: uint_and uint_status_value)
  then show ?thesis
    by (simp add: has_flag_def uint_0_iff)
qed

lemma flag_words_disjoint:
  "(word_of_int (status_value g) :: byte) AND word_of_int (status_value f) =
     (if f = g then word_of_int (status_value f) else 0)"
  by (cases f; cases g) simp_all

lemma flag_word_nonzero: "(word_of_int (status_value f) :: byte) \<noteq> 0"
  by (cases f) simp_all

lemma status_byte_Cons:
  "status_byte (g # fs) = word_of_int (status_value g) OR status_byte fs"
  by (simp add: status_byte_def of_int_or_eq)

lemma has_flag_status_byte: "has_flag (status_byte fs) f = (f \<in> set fs)"
proof (induction fs)
  case Nil
  show ?case by (simp add: has_flag_word status_byte_def)
next
  case (Cons g fs)
  have "has_flag (status_byte (g # fs)) f =
          (word_of_int (status_value g) AND (word_of_int (status_value f) :: byte) \<noteq> 0
           \<or> has_flag (status_byte fs) f)"
    by (simp add: has_flag_word status_byte_Cons bit.conj_disj_distrib2 or_eq_0_iff)
  then show ?case
    using Cons.IH by (auto simp: flag_words_disjoint flag_word_nonzero)
qed

lemma flags_or_range: "0 \<le> flags_or fs \<and> flags_or fs < 8"
proof (induction fs)
  case Nil
  show ?case by simp
next
  case (Cons f fs)
  have v: "0 \<le> status_value f" "status_value f < 2 ^ 3" by (cases f; simp)+
  from Cons have r: "0 \<le> flags_or fs" "flags_or fs < 2 ^ 3" by simp_all
  have "status_value f OR flags_or fs < 2 ^ 3"
    using v r by (intro OR_upper) 
  then show ?case using v r by simp
qed

lemma uint_status_byte: "uint (status_byte fs) = flags_or fs"
  using flags_or_range [of fs] by (simp add: status_byte_def uint_word_of_int take_bit_int_eq_self)

text \<open>
  Claim C7. The three status flags TRAINING, FROZEN and NORMAL have the values 0x1, 0x2 and
  0x4: each is a single bit of the one-byte status field, and two different flags share
  no bit. Every combination of flags is stored in the field without loss, and a flag is
  set in the stored byte exactly when it is among those combined; NORMAL with FROZEN is
  the byte 6, in which TRAINING is clear.
\<close>

theorem status_flags_single_bits:
  "status_value TRAINING = 0x1 \<and> status_value FROZEN = 0x2 \<and> status_value NORMAL = 0x4 \<and>
   (\<exists>k<8. status_value f = 2 ^ k) \<and>
   ((status_value f AND status_value g = 0) = (f \<noteq> g)) \<and>
   has_flag (status_byte fs) f = (f \<in> set fs) \<and>
   uint (status_byte fs) = flags_or fs \<and>
   status_byte [NORMAL, FROZEN] = 6 \<and>
   has_flag (status_byte [NORMAL, FROZEN]) NORMAL \<and>
   has_flag (status_byte [NORMAL, FROZEN]) FROZEN \<and>
   \<not> has_flag (status_byte [NORMAL, FROZEN]) TRAINING"
proof -
  have bits: "\<exists>k<8. status_value f = 2 ^ k"
  proof (cases f)
    case TRAINING
    then show ?thesis by (intro exI [of _ 0]) simp
  next
    case FROZEN
    then show ?thesis by (intro exI [of _ 1]) simp
  next
    case NORMAL
    then show ?thesis by (intro exI [of _ 2]) simp
  qed
  have disj: "(status_value f AND status_value g = 0) = (f \<noteq> g)"
    by (cases f; cases g) simp_all
  have six: "status_byte [NORMAL, FROZEN] = 6"
    by (simp add: status_byte_def)
  have on: "has_flag (status_byte [NORMAL, FROZEN]) NORMAL"
    "has_flag (status_byte [NORMAL, FROZEN]) FROZEN"
    "\<not> has_flag (status_byte [NORMAL, FROZEN]) TRAINING"
    by (simp_all add: has_flag_status_byte)
  have vals: "status_value TRAINING = 0x1" "status_value FROZEN = 0x2" "status_value NORMAL = 0x4"
    by simp_all
  from vals bits disj six on has_flag_status_byte [of fs f] uint_status_byte [of fs]
  show ?thesis by blast
qed

lemma settings_members:
  "EBPH_SETTINGS =
    [(''MONITORING'', 0), (''LOG_SEQUENCES'', 1), (''NORMAL_WAIT'', 2), (''NORMAL_FACTOR'', 3),
     (''NORMAL_FACTOR_DEN'', 4), (''ANOMALY_LIMIT'', 5), (''TOLERIZE_LIMIT'', 6), (''ENFORCING'', 7)]"
  by (simp add: EBPH_SETTINGS_def EBPH_SETTINGS_decl_def enum_members_def)

text \<open>
  Claim C8. The settings are exactly the eight members MONITORING, LOG_SEQUENCES,
  NORMAL_WAIT, NORMAL_FACTOR, NORMAL_FACTOR_DEN, ANOMALY_LIMIT, TOLERIZE_LIMIT and ENFORCING,
  with the distinct consecutive values 0 to 7 starting at MONITORING = 0, and
  \<open>set_setting\<close> is bound with a \<open>c_int\<close> key and a \<open>c_uint64\<close> value; the keys it
  accepts are these eight values.
\<close>

theorem settings_registry:
  "map fst EBPH_SETTINGS =
     [''MONITORING'', ''LOG_SEQUENCES'', ''NORMAL_WAIT'', ''NORMAL_FACTOR'', ''NORMAL_FACTOR_DEN'',
      ''ANOMALY_LIMIT'', ''TOLERIZE_LIMIT'', ''ENFORCING''] \<and>
   map (lower \<circ> fst) EBPH_SETTINGS =
     [''monitoring'', ''log_sequences'', ''normal_wait'', ''normal_factor'', ''normal_factor_den'',
      ''anomaly_limit'', ''tolerize_limit'', ''enforcing''] \<and>
   map snd EBPH_SETTINGS = [0, 1, 2, 3, 4, 5, 6, 7] \<and>
   unique EBPH_SETTINGS = Inr EBPH_SETTINGS \<and>
   length EBPH_SETTINGS = 8 \<and>
   map argtypes (filter (\<lambda>b. c_name b = ''set_setting'') Lib) = [[c_int, c_uint64]] \<and>
   (fst (set_setting key v e) = Success) = (sint key \<in> {0..7})"
proof -
  have low: "map lower
     [''MONITORING'', ''LOG_SEQUENCES'', ''NORMAL_WAIT'', ''NORMAL_FACTOR'', ''NORMAL_FACTOR_DEN'',
      ''ANOMALY_LIMIT'', ''TOLERIZE_LIMIT'', ''ENFORCING''] =
     [''monitoring'', ''log_sequences'', ''normal_wait'', ''normal_factor'', ''normal_factor_den'',
      ''anomaly_limit'', ''tolerize_limit'', ''enforcing'']"
    by code_simp
  have sig: "map argtypes (filter (\<lambda>b. c_name b = ''set_setting'') Lib) = [[c_int, c_uint64]]"
    by (simp add: Lib_def command_def)
  have keys: "(fst (set_setting key v e) = Success) = (sint key \<in> {0..7})"
    by (auto simp: set_setting_def settings_members)
  show ?thesis
    using low sig keys by (simp add: settings_members unique_def)
qed

subsection \<open>\<open>EBPH_LSM.get_name\<close>\<close>

lemma lsm_values: "map snd EBPH_LSM = map int [0..<90]"
  by (simp add: EBPH_LSM_def EBPH_LSM_decl_def enum_members_def upt_rec)

lemma find_distinct_member:
  "distinct (map snd ms) \<Longrightarrow> m \<in> set ms \<Longrightarrow> find (\<lambda>x. snd x = snd m) ms = Some m"
  by (induction ms) (auto simp: rev_image_eqI)

lemma enum_call_member:
  "distinct (map snd ms) \<Longrightarrow> m \<in> set ms \<Longrightarrow> enum_call ms (snd m) = Inr m"
  by (simp add: enum_call_def find_distinct_member)

lemma enum_call_other:
  assumes "num \<notin> snd ` set ms"
  shows "enum_call ms num = Inl ValueError"
proof -
  have "find (\<lambda>m. snd m = num) ms = None"
    using assms by (auto simp: find_None_iff image_iff)
  then show ?thesis by (simp add: enum_call_def)
qed

lemma lsm_distinct: "distinct (map snd EBPH_LSM)"
  by (simp add: lsm_values distinct_map)

lemma lsm_value_set: "snd ` set EBPH_LSM = {0..89}"
proof -
  have "snd ` set EBPH_LSM = set (map snd EBPH_LSM)" by simp
  also have "\<dots> = int ` {0..<90}" by (simp only: lsm_values set_map set_upt)
  also have "\<dots> = {0..89}"
  proof (auto simp: image_iff)
    fix x :: int
    assume "0 \<le> x" "x \<le> 89"
    then have "nat x \<in> {0..<90}" "x = int (nat x)" by auto
    then show "\<exists>xa\<in>{0..<90}. x = int xa" by blast
  qed
  finally show ?thesis .
qed

text \<open>
  Claim C10. \<open>EBPH_LSM.get_name\<close> is total on integers: for the value of a member of
  \<open>EBPH_LSM\<close> it returns that member's name in lowercase, for every other integer it
  returns \<open>empty\<close>, and it raises for no integer. The member values are the integers 0
  to 89.
\<close>

theorem get_name_total:
  "(\<forall>m \<in> set EBPH_LSM. get_name (snd m) = Inr (lower (fst m))) \<and>
   (\<forall>num. num \<notin> snd ` set EBPH_LSM \<longrightarrow> get_name num = Inr ''empty'') \<and>
   (\<forall>num. \<exists>s. get_name num = Inr s) \<and>
   snd ` set EBPH_LSM = {0..89}"
proof (intro conjI allI ballI impI)
  fix m assume "m \<in> set EBPH_LSM"
  then show "get_name (snd m) = Inr (lower (fst m))"
    by (simp add: get_name_def enum_call_member [OF lsm_distinct])
next
  fix num assume "num \<notin> snd ` set EBPH_LSM"
  then show "get_name num = Inr ''empty''"
    by (simp add: get_name_def enum_call_other)
next
  fix num
  show "\<exists>s. get_name num = Inr s"
  proof (cases "num \<in> snd ` set EBPH_LSM")
    case True
    then obtain m where "m \<in> set EBPH_LSM" "num = snd m" by auto
    then show ?thesis
      by (simp add: get_name_def enum_call_member [OF lsm_distinct])
  next
    case False
    then show ?thesis by (simp add: get_name_def enum_call_other)
  qed
next
  show "snd ` set EBPH_LSM = {0..89}" by (rule lsm_value_set)
qed

lemma lsm_member_14: "(''TASK_KILL'', 14) \<in> set EBPH_LSM"
  by (simp add: EBPH_LSM_def EBPH_LSM_decl_def enum_members_def)

theorem get_name_total_witness:
  "get_name 14 = Inr ''task_kill'' \<and> get_name 90 = Inr ''empty'' \<and> get_name (- 1) = Inr ''empty''"
proof -
  have lo: "lower ''TASK_KILL'' = ''task_kill''" by code_simp
  have a: "get_name 14 = Inr ''task_kill''"
    using get_name_total lsm_member_14 lo by fastforce
  have "(90::int) \<notin> {0..89}" "(- 1::int) \<notin> {0..89}" by simp_all
  then have b: "get_name 90 = Inr ''empty''" "get_name (- 1) = Inr ''empty''"
    using get_name_total by auto
  from a b show ?thesis by simp
qed

subsection \<open>The profile magic number\<close>

lemma and_mask64_bound: "(n::nat) AND 0xFFFFFFFFFFFFFFFF < 2 ^ 64"
proof -
  have "(0xFFFFFFFFFFFFFFFF :: nat) = mask 64"
    by (simp add: mask_eq_exp_minus_1)
  then have "n AND 0xFFFFFFFFFFFFFFFF = take_bit 64 n"
    by (simp only: take_bit_eq_mask)
  then show ?thesis
    by (simp only: take_bit_nat_less_exp)
qed

lemma split_acc_until_sep:
  "sep \<notin> set a \<Longrightarrow> split_acc sep acc (a @ sep # r) = (rev acc @ a) # split_acc sep [] r"
  by (induction a arbitrary: acc) auto

lemma split_acc_no_sep:
  "sep \<notin> set a \<Longrightarrow> split_acc sep acc a = [rev acc @ a]"
  by (induction a arbitrary: acc) auto

lemma split_acc_nonempty: "split_acc sep acc s \<noteq> []"
  by (induction s arbitrary: acc) auto

lemma take2_split_three:
  assumes "CHR ''.'' \<notin> set major" "CHR ''.'' \<notin> set minor"
  shows "take 2 (split (major @ ''.'' @ minor @ ''.'' @ rest) (CHR ''.'')) = [major, minor]"
proof -
  have "split (major @ ''.'' @ minor @ ''.'' @ rest) (CHR ''.'') =
          major # minor # split_acc (CHR ''.'') [] rest"
    using assms by (simp add: split_def split_acc_until_sep)
  then show ?thesis by (simp add: numeral_2_eq_2)
qed

lemma take2_split_two:
  assumes "CHR ''.'' \<notin> set major" "CHR ''.'' \<notin> set minor"
  shows "take 2 (split (major @ ''.'' @ minor) (CHR ''.'')) = [major, minor]"
  using assms by (simp add: split_def split_acc_until_sep split_acc_no_sep)

lemma set_split_acc:
  "w \<in> set (split_acc sep acc s) \<Longrightarrow> set w \<subseteq> set acc \<union> set s"
proof (induction s arbitrary: acc)
  case Nil
  then show ?case by simp
next
  case (Cons c cs)
  show ?case
  proof (cases "c = sep")
    case True
    with Cons.prems have "w = rev acc \<or> w \<in> set (split_acc sep [] cs)" by simp
    then show ?thesis
    proof
      assume "w = rev acc"
      then show ?thesis by auto
    next
      assume "w \<in> set (split_acc sep [] cs)"
      from Cons.IH [OF this] show ?thesis by auto
    qed
  next
    case False
    with Cons.prems have "w \<in> set (split_acc sep (c # acc) cs)" by simp
    from Cons.IH [OF this] show ?thesis by auto
  qed
qed

lemma set_join: "c \<in> set (join sep ws) \<Longrightarrow> c \<in> set sep \<or> (\<exists>w \<in> set ws. c \<in> set w)"
  by (induction sep ws rule: join.induct) auto

lemma set_version_part:
  assumes "c \<in> set (join ''.'' (take 2 (split v (CHR ''.''))))"
  shows "c = CHR ''.'' \<or> c \<in> set v"
proof -
  from set_join [OF assms]
  consider "c \<in> set ''.''" | w where "w \<in> set (take 2 (split v (CHR ''.'')))" "c \<in> set w"
    by blast
  then show ?thesis
  proof cases
    case 1
    then show ?thesis by simp
  next
    case 2
    then have "w \<in> set (split_acc (CHR ''.'') [] v)"
      by (auto simp: split_def dest: in_set_takeD)
    from set_split_acc [OF this] 2 show ?thesis by auto
  qed
qed

lemma magic_of_ascii:
  assumes "list_all (\<lambda>c. (of_char c :: nat) < 128) v"
  shows "\<exists>m. calculate_profile_magic h v = Inr m"
proof -
  have "(of_char c :: nat) < 128" if "c = CHR ''.'' \<or> c \<in> set v" for c
    using that assms by (auto simp: list_all_iff)
  then have "list_all (\<lambda>c. (of_char c :: nat) < 128) (join ''.'' (take 2 (split v (CHR ''.''))))"
    unfolding list_all_iff using set_version_part [of _ v] by blast
  then show ?thesis
    by (simp add: calculate_profile_magic_def encode_ascii_def)
qed

lemma magic_bound: "calculate_profile_magic h v = Inr m \<Longrightarrow> m < 2 ^ 64"
  using and_mask64_bound
  by (auto simp: calculate_profile_magic_def split: sum.splits)

text \<open>
  Claim C6. \<open>calculate_profile_magic\<close> depends only on the first two dot-separated
  components of the version text: two versions with the same first two components have
  the same magic, so a version \<open>major.minor.rest\<close> has the magic of \<open>major.minor\<close>.
  Every magic number it returns is less than \<open>2 ^ 64\<close>, and it returns one for every
  ASCII version text.
\<close>

theorem calculate_profile_magic_version:
  "(take 2 (split v1 (CHR ''.'')) = take 2 (split v2 (CHR ''.''))
      \<longrightarrow> calculate_profile_magic h v1 = calculate_profile_magic h v2) \<and>
   (CHR ''.'' \<notin> set major \<and> CHR ''.'' \<notin> set minor
      \<longrightarrow> calculate_profile_magic h (major @ ''.'' @ minor @ ''.'' @ rest) =
          calculate_profile_magic h (major @ ''.'' @ minor)) \<and>
   (calculate_profile_magic h v = Inr m \<longrightarrow> m < 2 ^ 64) \<and>
   (list_all (\<lambda>c. (of_char c :: nat) < 128) v \<longrightarrow> (\<exists>m. calculate_profile_magic h v = Inr m))"
proof (intro conjI impI)
  assume "take 2 (split v1 (CHR ''.'')) = take 2 (split v2 (CHR ''.''))"
  then show "calculate_profile_magic h v1 = calculate_profile_magic h v2"
    by (simp add: calculate_profile_magic_def)
next
  assume a: "CHR ''.'' \<notin> set major \<and> CHR ''.'' \<notin> set minor"
  have t3: "take 2 (split (major @ ''.'' @ minor @ ''.'' @ rest) (CHR ''.'')) = [major, minor]"
    using a by (intro take2_split_three) simp_all
  have t2: "take 2 (split (major @ ''.'' @ minor) (CHR ''.'')) = [major, minor]"
    using a by (intro take2_split_two) simp_all
  show "calculate_profile_magic h (major @ ''.'' @ minor @ ''.'' @ rest) =
        calculate_profile_magic h (major @ ''.'' @ minor)"
    by (simp only: calculate_profile_magic_def t3 t2)
next
  assume "calculate_profile_magic h v = Inr m"
  then show "m < 2 ^ 64" by (rule magic_bound)
next
  assume "list_all (\<lambda>c. (of_char c :: nat) < 128) v"
  then show "\<exists>m. calculate_profile_magic h v = Inr m" by (rule magic_of_ascii)
qed

lemma masked_example: "(2 ^ 64 + 3 :: nat) AND 0xFFFFFFFFFFFFFFFF = 3"
proof -
  have "(0xFFFFFFFFFFFFFFFF :: nat) = mask 64"
    by (simp add: mask_eq_exp_minus_1)
  then have "(2 ^ 64 + 3 :: nat) AND 0xFFFFFFFFFFFFFFFF = take_bit 64 (2 ^ 64 + 3)"
    by (simp only: take_bit_eq_mask)
  also have "\<dots> = 3"
    by (simp add: take_bit_eq_mod)
  finally show ?thesis .
qed

theorem calculate_profile_magic_version_witness:
  "calculate_profile_magic ((+) (2 ^ 64) \<circ> length) ''0.6.1'' = Inr 3 \<and>
   calculate_profile_magic ((+) (2 ^ 64) \<circ> length) ''0.6.9-rc2'' = Inr 3 \<and>
   calculate_profile_magic ((+) (2 ^ 64) \<circ> length) ''0.6'' = Inr 3 \<and>
   (3::nat) < 2 ^ 64"
proof -
  let ?h = "(+) (2 ^ 64) \<circ> length :: bytes \<Rightarrow> nat"
  have s1: "take 2 (split ''0.6.1'' (CHR ''.'')) = [''0'', ''6'']"
    and s2: "take 2 (split ''0.6.9-rc2'' (CHR ''.'')) = [''0'', ''6'']"
    by (simp_all add: split_def)
  have enc: "encode_ascii (join ''.'' [''0'', ''6'']) = Inr (map of_char ''0.6'')"
    by (simp add: encode_ascii_def)
  have v: "calculate_profile_magic ?h ''0.6.1'' = Inr 3"
    unfolding calculate_profile_magic_def s1 enc
    using masked_example by simp
  have e1: "calculate_profile_magic ?h ''0.6.1'' = calculate_profile_magic ?h ''0.6.9-rc2''"
    using calculate_profile_magic_version
            [where ?v1.0 = "''0.6.1''" and ?v2.0 = "''0.6.9-rc2''" and h = ?h, THEN conjunct1]
    by (simp only: s1 s2 simp_thms)
  have e2: "calculate_profile_magic ?h (''0'' @ ''.'' @ ''6'' @ ''.'' @ ''1'') =
            calculate_profile_magic ?h (''0'' @ ''.'' @ ''6'')"
    using calculate_profile_magic_version
            [where h = ?h and major = "''0''" and minor = "''6''" and rest = "''1''",
             THEN conjunct2, THEN conjunct1]
    by simp
  have b: "(3::nat) < 2 ^ 64"
    using calculate_profile_magic_version
            [where h = ?h and v = "''0.6.1''" and m = 3,
             THEN conjunct2, THEN conjunct2, THEN conjunct1] v
    by (simp only: simp_thms)
  from v e1 e2 b show ?thesis by (simp only: append.simps simp_thms)
qed

subsection \<open>The layout of the profile structure\<close>

lemma num_lsm: "NUM_LSM = 89"
  by (simp add: NUM_LSM_def EBPH_LSM_def EBPH_LSM_decl_def enum_members_def)

lemma and_maxsize: "(7921::int) AND (2 ^ 63 - 1) = 7921"
proof -
  have "(2 ^ 63 - 1 :: int) = mask 63" by (simp add: mask_eq_exp_minus_1)
  then have "(7921::int) AND (2 ^ 63 - 1) = take_bit 63 7921"
    by (simp only: take_bit_eq_mask)
  also have "\<dots> = 7921" by (simp add: take_bit_eq_mod)
  finally show ?thesis .
qed

lemma flags_len_value: "flags_len = 7921"
  using and_maxsize by (simp add: flags_len_def num_lsm sys_maxsize_def)

lemma flags_len_square: "flags_len = nat (NUM_LSM * NUM_LSM)"
  by (simp add: flags_len_value num_lsm)

lemma s_get_no_nul: "0 \<notin> set (s_get buf)"
  by (auto simp: s_get_def dest: set_takeWhileD)

lemma s_get_prefix: "s_get (v @ 0 # rest) = s_get v"
  by (induction v) (auto simp: s_get_def)

lemma s_get_id: "0 \<notin> set v \<Longrightarrow> s_get v = v"
  unfolding s_get_def by (rule takeWhile_eq_all_conv [THEN iffD2]) auto

lemma s_get_idem: "s_get (s_get v) = s_get v"
  by (simp add: s_get_id s_get_no_nul)

lemma s_set_fits:
  assumes "length (s_get v) \<le> length buf"
  shows "\<exists>buf'. s_set buf v = Inr buf' \<and> length buf' = length buf \<and> s_get buf' = s_get v"
proof (cases "length (s_get v) < length buf")
  case True
  then have "s_set buf v = Inr (s_get v @ [0] @ drop (length (s_get v) + 1) buf)"
    by (simp add: s_set_def s_get_def Let_def)
  moreover have "length (s_get v @ [0] @ drop (length (s_get v) + 1) buf) = length buf"
    using True by simp
  moreover have "s_get (s_get v @ [0] @ drop (length (s_get v) + 1) buf) = s_get v"
    using s_get_prefix [of "s_get v"] by (simp add: s_get_idem)
  ultimately show ?thesis by blast
next
  case False
  with assms have "length (s_get v) = length buf" by simp
  then have "s_set buf v = Inr (s_get v)"
    by (simp add: s_set_def s_get_def Let_def)
  then show ?thesis
    using \<open>length (s_get v) = length buf\<close> by (simp add: s_get_idem)
qed

lemma s_set_too_long:
  "length buf < length (s_get v) \<Longrightarrow> s_set buf v = Inl ValueError"
  by (simp add: s_set_def s_get_def Let_def)

lemma s_set_terminated:
  assumes "length (s_get v) < length buf"
  shows "\<exists>buf'. s_set buf v = Inr buf' \<and> buf' ! length (s_get v) = 0"
proof -
  have "s_set buf v = Inr (s_get v @ [0] @ drop (length (s_get v) + 1) buf)"
    using assms by (simp add: s_set_def s_get_def Let_def)
  then show ?thesis by (simp add: nth_append)
qed

lemma s_set_full:
  "length (s_get v) = length buf \<Longrightarrow> s_set buf v = Inr (s_get v)"
  by (simp add: s_set_def s_get_def Let_def)

text \<open>
  Claim C2, amended. The fields of the profile structure are, in this order, magic,
  profile_key, status, anomaly_count, train_count, last_mod_count, sequences, normal_time,
  count, train, test and exe. Magic, profile_key and the six counters are 8-byte unsigned
  integers, status is one byte, each of the two matrices is \<open>NUM_LSM * NUM_LSM\<close> = 7921
  one-byte entries, and the path \<open>exe\<close>, a character array of the fixed capacity
  \<open>PATH_MAX\<close>, is last; the offsets of the fields increase in that order. The path reads
  as the bytes before the first NUL. A path shorter than the capacity is stored with a
  terminating NUL; a path of exactly the capacity fills the field and is stored with no
  NUL; a longer path is refused with \<open>ValueError\<close>.
\<close>

theorem profile_layout:
  "map fst (EBPHProfileStruct_fields PATH_MAX) =
     [''magic'', ''profile_key'', ''status'', ''anomaly_count'', ''train_count'', ''last_mod_count'',
      ''sequences'', ''normal_time'', ''count'', ''train'', ''test'', ''exe''] \<and>
   map snd (EBPHProfileStruct_fields PATH_MAX) =
     [c_uint64, c_uint64, c_uint8, c_uint64, c_uint64, c_uint64, c_uint64, c_uint64, c_uint64,
      Structure [(''flags'', Array c_uint8 (nat (NUM_LSM * NUM_LSM)))],
      Structure [(''flags'', Array c_uint8 (nat (NUM_LSM * NUM_LSM)))],
      Array c_char PATH_MAX] \<and>
   sizeof c_uint64 = 8 \<and> sizeof c_uint8 = 1 \<and> sizeof c_char = 1 \<and>
   nat (NUM_LSM * NUM_LSM) = 7921 \<and>
   sizeof (Structure EBPHProfileDataStruct_fields) = nat (NUM_LSM * NUM_LSM) \<and>
   last (EBPHProfileStruct_fields PATH_MAX) = (''exe'', Array c_char PATH_MAX) \<and>
   sizeof (Array c_char PATH_MAX) = PATH_MAX \<and>
   field_offsets 0 (EBPHProfileStruct_fields PATH_MAX) =
     [(''magic'', 0), (''profile_key'', 8), (''status'', 16), (''anomaly_count'', 24),
      (''train_count'', 32), (''last_mod_count'', 40), (''sequences'', 48), (''normal_time'', 56),
      (''count'', 64), (''train'', 72), (''test'', 7993), (''exe'', 15914)] \<and>
   0 \<notin> set (s_get buf) \<and>
   s_get (v @ 0 # rest) = s_get v \<and>
   (length (s_get v) < length buf \<longrightarrow>
      (\<exists>buf'. s_set buf v = Inr buf' \<and> length buf' = length buf \<and>
              buf' ! length (s_get v) = 0 \<and> s_get buf' = s_get v)) \<and>
   (length (s_get v) = length buf \<longrightarrow> s_set buf v = Inr (s_get v) \<and> 0 \<notin> set (s_get v)) \<and>
   (length buf < length (s_get v) \<longrightarrow> s_set buf v = Inl ValueError)"
proof -
  have names: "map fst (EBPHProfileStruct_fields PATH_MAX) =
     [''magic'', ''profile_key'', ''status'', ''anomaly_count'', ''train_count'', ''last_mod_count'',
      ''sequences'', ''normal_time'', ''count'', ''train'', ''test'', ''exe'']"
    by (simp add: EBPHProfileStruct_fields_def)
  have types: "map snd (EBPHProfileStruct_fields PATH_MAX) =
     [c_uint64, c_uint64, c_uint8, c_uint64, c_uint64, c_uint64, c_uint64, c_uint64, c_uint64,
      Structure [(''flags'', Array c_uint8 (nat (NUM_LSM * NUM_LSM)))],
      Structure [(''flags'', Array c_uint8 (nat (NUM_LSM * NUM_LSM)))],
      Array c_char PATH_MAX]"
    by (simp add: EBPHProfileStruct_fields_def EBPHProfileDataStruct_fields_def flags_len_square)
  have sizes: "sizeof c_uint64 = 8" "sizeof c_uint8 = 1" "sizeof c_char = 1"
    "sizeof (Array c_char PATH_MAX) = PATH_MAX"
    by simp_all
  have n: "nat (NUM_LSM * NUM_LSM) = 7921"
    by (simp add: num_lsm)
  have data: "sizeof (Structure EBPHProfileDataStruct_fields) = nat (NUM_LSM * NUM_LSM)"
    by (simp add: EBPHProfileDataStruct_fields_def flags_len_value n round_up_def)
  have lst: "last (EBPHProfileStruct_fields PATH_MAX) = (''exe'', Array c_char PATH_MAX)"
    by (simp add: EBPHProfileStruct_fields_def)
  have offs: "field_offsets 0 (EBPHProfileStruct_fields PATH_MAX) =
     [(''magic'', 0), (''profile_key'', 8), (''status'', 16), (''anomaly_count'', 24),
      (''train_count'', 32), (''last_mod_count'', 40), (''sequences'', 48), (''normal_time'', 56),
      (''count'', 64), (''train'', 72), (''test'', 7993), (''exe'', 15914)]"
    by (simp add: EBPHProfileStruct_fields_def EBPHProfileDataStruct_fields_def flags_len_value
        round_up_def Let_def)
  have nul: "length (s_get v) < length buf \<longrightarrow>
      (\<exists>buf'. s_set buf v = Inr buf' \<and> length buf' = length buf \<and>
              buf' ! length (s_get v) = 0 \<and> s_get buf' = s_get v)"
  proof
    assume l: "length (s_get v) < length buf"
    then have "length (s_get v) \<le> length buf" by simp
    from s_set_fits [OF this] s_set_terminated [OF l]
    show "\<exists>buf'. s_set buf v = Inr buf' \<and> length buf' = length buf \<and>
              buf' ! length (s_get v) = 0 \<and> s_get buf' = s_get v"
      by auto
  qed
  have full: "length (s_get v) = length buf \<longrightarrow> s_set buf v = Inr (s_get v) \<and> 0 \<notin> set (s_get v)"
    using s_set_full [of v buf] s_get_no_nul [of v] by blast
  have long: "length buf < length (s_get v) \<longrightarrow> s_set buf v = Inl ValueError"
    using s_set_too_long [of buf v] by blast
  from names types sizes n data lst offs s_get_no_nul [of buf] s_get_prefix [of v rest] nul
    full long
  show ?thesis by blast
qed

theorem profile_layout_witness:
  "length (s_get [47, 98, 105, 110, 47, 108, 115]) < length (replicate 4096 (0::byte)) \<and>
   (\<exists>buf'. s_set (replicate 4096 0) [47, 98, 105, 110, 47, 108, 115] = Inr buf' \<and>
           length buf' = 4096 \<and> buf' ! 7 = 0 \<and> s_get buf' = [47, 98, 105, 110, 47, 108, 115]) \<and>
   s_set (replicate 7 0) [47, 98, 105, 110, 47, 108, 115] =
     Inr [47, 98, 105, 110, 47, 108, 115] \<and>
   s_set (replicate 6 0) [47, 98, 105, 110, 47, 108, 115] = Inl ValueError"
proof -
  let ?v = "[47, 98, 105, 110, 47, 108, 115] :: bytes"
  have g: "s_get ?v = ?v"
    by (simp add: s_get_def)
  have len: "length ?v = 7"
    by simp
  have l: "length (s_get ?v) < length (replicate 4096 (0::byte))"
    by (simp add: g)
  from profile_layout [where v = ?v and buf = "replicate 4096 0", THEN conjunct2,
      THEN conjunct2, THEN conjunct2, THEN conjunct2, THEN conjunct2, THEN conjunct2,
      THEN conjunct2, THEN conjunct2, THEN conjunct2, THEN conjunct2, THEN conjunct2,
      THEN conjunct2, THEN conjunct1, THEN mp, OF l]
  have "\<exists>buf'. s_set (replicate 4096 0) ?v = Inr buf' \<and>
           length buf' = length (replicate 4096 (0::byte)) \<and>
           buf' ! length (s_get ?v) = 0 \<and> s_get buf' = s_get ?v" .
  then have short: "\<exists>buf'. s_set (replicate 4096 0) ?v = Inr buf' \<and>
           length buf' = 4096 \<and> buf' ! 7 = 0 \<and> s_get buf' = ?v"
    by (simp only: g len length_replicate)
  have e: "length (s_get ?v) = length (replicate 7 (0::byte))"
    by (simp add: g)
  from profile_layout [where v = ?v and buf = "replicate 7 0", THEN conjunct2,
      THEN conjunct2, THEN conjunct2, THEN conjunct2, THEN conjunct2, THEN conjunct2,
      THEN conjunct2, THEN conjunct2, THEN conjunct2, THEN conjunct2, THEN conjunct2,
      THEN conjunct2, THEN conjunct2, THEN conjunct1, THEN mp, OF e]
  have full: "s_set (replicate 7 0) ?v = Inr ?v"
    by (simp only: g)
  have m: "length (replicate 6 (0::byte)) < length (s_get ?v)"
    by (simp add: g)
  from profile_layout [where v = ?v and buf = "replicate 6 0", THEN conjunct2,
      THEN conjunct2, THEN conjunct2, THEN conjunct2, THEN conjunct2, THEN conjunct2,
      THEN conjunct2, THEN conjunct2, THEN conjunct2, THEN conjunct2, THEN conjunct2,
      THEN conjunct2, THEN conjunct2, THEN conjunct2, THEN mp, OF m]
  have long: "s_set (replicate 6 0) ?v = Inl ValueError" .
  from l short full long show ?thesis by blast
qed

text \<open>
  Claim C2 as stated fails for a path of exactly the capacity: with \<open>PATH_MAX\<close> = 4096, a
  path of 4096 bytes is stored in \<open>exe\<close> as it is, and the field holds no NUL.
\<close>

theorem profile_layout_counterexample:
  "last (EBPHProfileStruct_fields 4096) = (''exe'', Array c_char 4096) \<and>
   s_set (replicate 4096 0) (replicate 4096 97) = Inr (replicate 4096 97) \<and>
   length (replicate 4096 (97::byte)) = 4096 \<and>
   0 \<notin> set (replicate 4096 (97::byte))"
proof -
  have g: "s_get (replicate 4096 (97::byte)) = replicate 4096 97"
    by (simp add: s_get_def takeWhile_replicate)
  have "length (s_get (replicate 4096 (97::byte))) = length (replicate 4096 (0::byte))"
    by (simp add: g)
  from s_set_full [OF this]
  have "s_set (replicate 4096 0) (replicate 4096 97) = Inr (replicate 4096 97)"
    by (simp only: g)
  then show ?thesis
    by (simp add: EBPHProfileStruct_fields_def)
qed

subsection \<open>Equality of profile structures\<close>

lemma getattr_profile:
  "getattr (ProfileObj p) ''profile_key'' = Inr (PyInt (uint (profile_key p)))"
  "getattr (ProfileObj p) ''status'' = Inr (PyInt (uint (status p)))"
  "getattr (ProfileObj p) ''anomaly_count'' = Inr (PyInt (uint (anomaly_count p)))"
  "getattr (ProfileObj p) ''train_count'' = Inr (PyInt (uint (train_count p)))"
  "getattr (ProfileObj p) ''last_mod_count'' = Inr (PyInt (uint (last_mod_count p)))"
  "getattr (ProfileObj p) ''sequences'' = Inr (PyInt (uint (sequences p)))"
  "getattr (ProfileObj p) ''normal_time'' = Inr (PyInt (uint (normal_time p)))"
  "getattr (ProfileObj p) ''count'' = Inr (PyInt (uint (count p)))"
  "getattr (ProfileObj p) ''exe'' = Inr (PyBytes (s_get (exe p)))"
  by (simp_all add: profile_attrs_def)

lemma getattr_eq_field:
  "name \<in> set eq_fields \<Longrightarrow> \<exists>a. getattr (ProfileObj p) name = Inr a"
  unfolding eq_fields_def using getattr_profile [of p] by auto

lemma asserts_two_profiles:
  "asserts (ProfileObj p) (ProfileObj q) eq_fields = Inr () \<longleftrightarrow>
     profile_key p = profile_key q \<and> status p = status q \<and>
     anomaly_count p = anomaly_count q \<and> train_count p = train_count q \<and>
     last_mod_count p = last_mod_count q \<and> sequences p = sequences q \<and>
     normal_time p = normal_time q \<and> count p = count q \<and> s_get (exe p) = s_get (exe q)"
  by (simp add: eq_fields_def assert_eq_def getattr_profile word_uint_eq_iff [symmetric]
      del: getattr.simps)

lemma profile_attr_not_raising:
  "map_of (profile_attrs p) name = Some v \<Longrightarrow> v \<noteq> PyRaising e"
  by (auto simp: profile_attrs_def split: if_splits)

lemma py_eq_error: "py_eq a b = Inl e \<Longrightarrow> a = PyRaising e \<or> b = PyRaising e"
  by (cases a; cases b) auto

lemma assert_eq_two_profiles:
  assumes "assert_eq (ProfileObj p) (ProfileObj q) name = Inl e"
  shows "e = AttributeError \<or> e = AssertionError"
proof (cases "map_of (profile_attrs p) name")
  case None
  with assms show ?thesis by (simp add: assert_eq_def)
next
  case a: (Some a)
  show ?thesis
  proof (cases "map_of (profile_attrs q) name")
    case None
    with assms a show ?thesis by (simp add: assert_eq_def)
  next
    case b: (Some b)
    show ?thesis
    proof (cases "py_eq a b")
      case (Inl e')
      from py_eq_error [OF Inl] profile_attr_not_raising [OF a] profile_attr_not_raising [OF b]
      show ?thesis by blast
    next
      case (Inr ok)
      with assms a b show ?thesis by (simp add: assert_eq_def split: if_splits)
    qed
  qed
qed

lemma asserts_error_source:
  "asserts self other names = Inl e \<Longrightarrow> \<exists>name \<in> set names. assert_eq self other name = Inl e"
  by (induction names) (auto split: sum.splits)

lemma asserts_fail:
  "name \<in> set names \<Longrightarrow> assert_eq self other name = Inl e \<Longrightarrow>
     \<exists>e'. asserts self other names = Inl e'"
  by (induction names) (auto split: sum.splits)

lemma eq_two_profiles:
  "EBPHProfileStruct_eq p (ProfileObj q) =
     Inr (profile_key p = profile_key q \<and> status p = status q \<and>
          anomaly_count p = anomaly_count q \<and> train_count p = train_count q \<and>
          last_mod_count p = last_mod_count q \<and> sequences p = sequences q \<and>
          normal_time p = normal_time q \<and> count p = count q \<and> s_get (exe p) = s_get (exe q))"
  (is "_ = Inr ?agree")
proof (cases "asserts (ProfileObj p) (ProfileObj q) eq_fields")
  case (Inl e)
  from asserts_error_source [OF Inl] assert_eq_two_profiles
  have "e = AttributeError \<or> e = AssertionError" by blast
  then have ex: "is_Exception e" by auto
  have "\<not> ?agree"
    using Inl asserts_two_profiles [of p q] by simp
  then have "Inr ?agree = (Inr False :: py_error + bool)"
    by (simp only: simp_thms)
  moreover have "EBPHProfileStruct_eq p (ProfileObj q) = Inr False"
    using Inl ex by (simp add: EBPHProfileStruct_eq_def)
  ultimately show ?thesis by (simp only:)
next
  case (Inr u)
  then have ok: "asserts (ProfileObj p) (ProfileObj q) eq_fields = Inr ()" by simp
  then have "?agree"
    by (simp only: asserts_two_profiles)
  then have "Inr ?agree = (Inr True :: py_error + bool)"
    by (simp only: simp_thms)
  moreover have "EBPHProfileStruct_eq p (ProfileObj q) = Inr True"
    using ok by (simp add: EBPHProfileStruct_eq_def)
  ultimately show ?thesis by (simp only:)
qed

lemma eq_result:
  "EBPHProfileStruct_eq p other = Inl e \<longleftrightarrow>
     asserts (ProfileObj p) other eq_fields = Inl e \<and> \<not> is_Exception e"
  "EBPHProfileStruct_eq p other = Inr False \<longleftrightarrow>
     (\<exists>e. asserts (ProfileObj p) other eq_fields = Inl e \<and> is_Exception e)"
  by (auto simp: EBPHProfileStruct_eq_def split: sum.splits)

lemma eq_false_of_failed_assert:
  assumes only: "\<forall>n \<in> set eq_fields. \<forall>e'. assert_eq (ProfileObj p) other n = Inl e' \<longrightarrow> is_Exception e'"
      and "name \<in> set eq_fields" "assert_eq (ProfileObj p) other name = Inl e"
  shows "EBPHProfileStruct_eq p other = Inr False"
proof -
  from asserts_fail [OF assms(2,3)] obtain e' where
    e': "asserts (ProfileObj p) other eq_fields = Inl e'" by blast
  from asserts_error_source [OF e'] only have "is_Exception e'" by blast
  with e' show ?thesis by (simp add: eq_result)
qed

lemma assert_eq_error_cases:
  assumes "assert_eq self other n = Inl e"
  shows "getattr self n = Inl e \<or> getattr other n = Inl e \<or>
         (\<exists>a b. getattr self n = Inr a \<and> getattr other n = Inr b \<and> py_eq a b = Inl e) \<or>
         e = AssertionError"
  using assms by (auto simp: assert_eq_def split: sum.splits if_splits)

lemma assert_eq_only_Exception:
  assumes only: "\<forall>n \<in> set eq_fields.
        (\<forall>e'. getattr other n = Inl e' \<longrightarrow> is_Exception e') \<and>
        (\<forall>a b e'. getattr (ProfileObj p) n = Inr a \<and> getattr other n = Inr b \<and>
                   py_eq a b = Inl e' \<longrightarrow> is_Exception e')"
      and n: "n \<in> set eq_fields"
      and e: "assert_eq (ProfileObj p) other n = Inl e"
  shows "is_Exception e"
proof -
  from getattr_eq_field [OF n] obtain v where v: "getattr (ProfileObj p) n = Inr v" by blast
  from assert_eq_error_cases [OF e] v
  consider "getattr other n = Inl e"
    | a b where "getattr (ProfileObj p) n = Inr a" "getattr other n = Inr b" "py_eq a b = Inl e"
    | "e = AssertionError"
    by auto
  then show ?thesis
  proof cases
    case 1
    with only n show ?thesis by blast
  next
    case 2
    with only n show ?thesis by blast
  next
    case 3
    then show ?thesis by simp
  qed
qed

text \<open>
  Claim C3, amended. \<open>__eq__\<close> on profile structures is decided by the nine fields
  profile_key, status, anomaly_count, train_count, last_mod_count, sequences, normal_time,
  count and exe only: for two structures it returns \<open>True\<close> exactly when they agree on the
  nine, so changing magic, the train matrix or the test matrix of one does not change the
  result. For any object on which every raise of reading or comparing one of the nine
  fields is an \<open>Exception\<close>, it raises nothing, and it returns \<open>False\<close> when such a read
  or comparison fails. An exception that is not an \<open>Exception\<close> (\<open>KeyboardInterrupt\<close>,
  \<open>SystemExit\<close>) is not caught: when \<open>__eq__\<close> raises, it raises such an exception of
  one of the nine assertions, and it does so when reading or comparing the first field,
  profile_key, raises one.
\<close>

theorem profile_eq_nine_fields:
  "EBPHProfileStruct_eq p (ProfileObj q) =
     Inr (profile_key p = profile_key q \<and> status p = status q \<and>
          anomaly_count p = anomaly_count q \<and> train_count p = train_count q \<and>
          last_mod_count p = last_mod_count q \<and> sequences p = sequences q \<and>
          normal_time p = normal_time q \<and> count p = count q \<and> s_get (exe p) = s_get (exe q)) \<and>
   EBPHProfileStruct_eq p (ProfileObj (q\<lparr>magic := mg, train := tr, test := te\<rparr>)) =
     EBPHProfileStruct_eq p (ProfileObj q) \<and>
   ((\<forall>n \<in> set eq_fields.
        (\<forall>e'. getattr other n = Inl e' \<longrightarrow> is_Exception e') \<and>
        (\<forall>a b e'. getattr (ProfileObj p) n = Inr a \<and> getattr other n = Inr b \<and>
                   py_eq a b = Inl e' \<longrightarrow> is_Exception e'))
      \<longrightarrow> (\<exists>r. EBPHProfileStruct_eq p other = Inr r) \<and>
          (name \<in> set eq_fields \<and>
           (getattr other name = Inl e \<or>
            (\<exists>a b. getattr (ProfileObj p) name = Inr a \<and> getattr other name = Inr b \<and>
                   py_eq a b = Inl e))
             \<longrightarrow> EBPHProfileStruct_eq p other = Inr False)) \<and>
   (EBPHProfileStruct_eq p other = Inl e
      \<longrightarrow> \<not> is_Exception e \<and>
          (\<exists>n \<in> set eq_fields. assert_eq (ProfileObj p) other n = Inl e)) \<and>
   (getattr other ''profile_key'' = Inl e \<and> \<not> is_Exception e
      \<longrightarrow> EBPHProfileStruct_eq p other = Inl e) \<and>
   (getattr other ''profile_key'' = Inr b \<and> py_eq (PyInt (uint (profile_key p))) b = Inl e \<and>
    \<not> is_Exception e
      \<longrightarrow> EBPHProfileStruct_eq p other = Inl e)"
proof -
  have same: "EBPHProfileStruct_eq p (ProfileObj (q\<lparr>magic := mg, train := tr, test := te\<rparr>)) =
     EBPHProfileStruct_eq p (ProfileObj q)"
    by (simp add: eq_two_profiles)
  have caught: "(\<exists>r. EBPHProfileStruct_eq p other = Inr r) \<and>
          (name \<in> set eq_fields \<and>
           (getattr other name = Inl e \<or>
            (\<exists>a b. getattr (ProfileObj p) name = Inr a \<and> getattr other name = Inr b \<and>
                   py_eq a b = Inl e))
             \<longrightarrow> EBPHProfileStruct_eq p other = Inr False)"
    if only: "\<forall>n \<in> set eq_fields.
        (\<forall>e'. getattr other n = Inl e' \<longrightarrow> is_Exception e') \<and>
        (\<forall>a b e'. getattr (ProfileObj p) n = Inr a \<and> getattr other n = Inr b \<and>
                   py_eq a b = Inl e' \<longrightarrow> is_Exception e')"
  proof (intro conjI impI)
    have only': "\<forall>n \<in> set eq_fields. \<forall>e'. assert_eq (ProfileObj p) other n = Inl e'
        \<longrightarrow> is_Exception e'"
      using assert_eq_only_Exception [OF only] by blast
    show "\<exists>r. EBPHProfileStruct_eq p other = Inr r"
    proof (cases "asserts (ProfileObj p) other eq_fields")
      case (Inl e')
      from asserts_error_source [OF Inl] only' have "is_Exception e'" by blast
      with Inl have "EBPHProfileStruct_eq p other = Inr False"
        by (simp add: EBPHProfileStruct_eq_def)
      then show ?thesis by blast
    next
      case (Inr u)
      then have "EBPHProfileStruct_eq p other = Inr True"
        by (simp add: EBPHProfileStruct_eq_def)
      then show ?thesis by blast
    qed
    assume a: "name \<in> set eq_fields \<and>
           (getattr other name = Inl e \<or>
            (\<exists>a b. getattr (ProfileObj p) name = Inr a \<and> getattr other name = Inr b \<and>
                   py_eq a b = Inl e))"
    then obtain v where "getattr (ProfileObj p) name = Inr v"
      using getattr_eq_field by blast
    with a have "assert_eq (ProfileObj p) other name = Inl e"
      by (auto simp: assert_eq_def)
    with a only' show "EBPHProfileStruct_eq p other = Inr False"
      using eq_false_of_failed_assert by blast
  qed
  have raised: "\<not> is_Exception e \<and>
          (\<exists>n \<in> set eq_fields. assert_eq (ProfileObj p) other n = Inl e)"
    if "EBPHProfileStruct_eq p other = Inl e"
    using that asserts_error_source [of "ProfileObj p" other eq_fields e]
    by (simp add: eq_result)
  have first: "EBPHProfileStruct_eq p other = Inl e"
    if "assert_eq (ProfileObj p) other ''profile_key'' = Inl e" "\<not> is_Exception e"
    using that by (simp add: EBPHProfileStruct_eq_def eq_fields_def)
  have read: "EBPHProfileStruct_eq p other = Inl e"
    if "getattr other ''profile_key'' = Inl e \<and> \<not> is_Exception e"
    using that by (intro first) (simp_all add: assert_eq_def getattr_profile del: getattr.simps)
  have compare: "EBPHProfileStruct_eq p other = Inl e"
    if "getattr other ''profile_key'' = Inr b \<and> py_eq (PyInt (uint (profile_key p))) b = Inl e \<and>
        \<not> is_Exception e"
    using that by (intro first) (simp_all add: assert_eq_def getattr_profile del: getattr.simps)
  from eq_two_profiles [of p q] same caught raised read compare show ?thesis by blast
qed

text \<open>
  Claim C3 as stated fails for an object whose attribute read raises \<open>KeyboardInterrupt\<close>,
  and for one whose comparison raises \<open>SystemExit\<close>: the access or comparison fails, and
  \<open>__eq__\<close> raises instead of returning \<open>False\<close>.
\<close>

theorem profile_eq_nine_fields_counterexample:
  "getattr (AttrObj (\<lambda>name. Inl KeyboardInterrupt)) ''profile_key'' = Inl KeyboardInterrupt \<and>
   EBPHProfileStruct_eq (new_EBPHProfileStruct 4096) (AttrObj (\<lambda>name. Inl KeyboardInterrupt)) =
     Inl KeyboardInterrupt \<and>
   EBPHProfileStruct_eq (new_EBPHProfileStruct 4096) (AttrObj (\<lambda>name. Inl KeyboardInterrupt)) \<noteq>
     Inr False \<and>
   py_eq (PyInt 0) (PyRaising SystemExit) = Inl SystemExit \<and>
   EBPHProfileStruct_eq (new_EBPHProfileStruct 4096)
     (AttrObj (\<lambda>name. Inr (PyRaising SystemExit))) = Inl SystemExit"
  by (simp add: EBPHProfileStruct_eq_def eq_fields_def assert_eq_def profile_attrs_def
      new_EBPHProfileStruct_def)

lemma getattr_profile_not_raising:
  "getattr (ProfileObj p) n = Inr a \<Longrightarrow> a \<noteq> PyRaising e"
  by (auto simp: profile_attr_not_raising split: option.splits)

theorem profile_eq_nine_fields_witness:
  "EBPHProfileStruct_eq (new_EBPHProfileStruct 4096\<lparr>profile_key := 42\<rparr>)
     (ProfileObj (new_EBPHProfileStruct 4096
        \<lparr>profile_key := 42, magic := 7, train := \<lparr>flags = [1]\<rparr>, test := \<lparr>flags = [2]\<rparr>\<rparr>)) =
     Inr True \<and>
   EBPHProfileStruct_eq (new_EBPHProfileStruct 4096\<lparr>profile_key := 42\<rparr>)
     (AttrObj (\<lambda>name. Inl AttributeError)) = Inr False \<and>
   EBPHProfileStruct_eq (new_EBPHProfileStruct 4096\<lparr>profile_key := 42\<rparr>)
     (AttrObj (\<lambda>name. Inr (PyRaising TypeError))) = Inr False \<and>
   EBPHProfileStruct_eq (new_EBPHProfileStruct 4096\<lparr>profile_key := 42\<rparr>)
     (AttrObj (\<lambda>name. Inl KeyboardInterrupt)) = Inl KeyboardInterrupt"
proof -
  let ?p = "new_EBPHProfileStruct 4096\<lparr>profile_key := 42\<rparr>"
  let ?missing = "AttrObj (\<lambda>name. Inl AttributeError)"
  let ?raising = "AttrObj (\<lambda>name. Inr (PyRaising TypeError))"
  let ?interrupt = "AttrObj (\<lambda>name. Inl KeyboardInterrupt)"
  note T = profile_eq_nine_fields [where p = ?p]
  have "EBPHProfileStruct_eq ?p (ProfileObj (?p\<lparr>magic := 7, train := \<lparr>flags = [1]\<rparr>, test := \<lparr>flags = [2]\<rparr>\<rparr>))
          = EBPHProfileStruct_eq ?p (ProfileObj ?p)"
    using T [where q = ?p, THEN conjunct2, THEN conjunct1] .
  moreover have "EBPHProfileStruct_eq ?p (ProfileObj ?p) = Inr True"
    using T [where q = ?p, THEN conjunct1] by simp
  ultimately have one: "EBPHProfileStruct_eq ?p
      (ProfileObj (?p\<lparr>magic := 7, train := \<lparr>flags = [1]\<rparr>, test := \<lparr>flags = [2]\<rparr>\<rparr>)) = Inr True"
    by simp
  have m: "''profile_key'' \<in> set eq_fields"
    by (simp add: eq_fields_def)
  have only_missing: "\<forall>n \<in> set eq_fields.
        (\<forall>e'. getattr ?missing n = Inl e' \<longrightarrow> is_Exception e') \<and>
        (\<forall>a b e'. getattr (ProfileObj ?p) n = Inr a \<and> getattr ?missing n = Inr b \<and>
                   py_eq a b = Inl e' \<longrightarrow> is_Exception e')"
    by auto
  have two: "EBPHProfileStruct_eq ?p ?missing = Inr False"
    using T [where other = ?missing and name = "''profile_key''" and e = AttributeError,
        THEN conjunct2, THEN conjunct2, THEN conjunct1, THEN mp, OF only_missing,
        THEN conjunct2, THEN mp] m
    by simp
  have only_raising: "\<forall>n \<in> set eq_fields.
        (\<forall>e'. getattr ?raising n = Inl e' \<longrightarrow> is_Exception e') \<and>
        (\<forall>a b e'. getattr (ProfileObj ?p) n = Inr a \<and> getattr ?raising n = Inr b \<and>
                   py_eq a b = Inl e' \<longrightarrow> is_Exception e')"
  proof (intro ballI conjI allI impI)
    fix n e'
    assume "getattr ?raising n = Inl e'"
    then show "is_Exception e'" by simp
  next
    fix n a b e'
    assume h: "getattr (ProfileObj ?p) n = Inr a \<and> getattr ?raising n = Inr b \<and> py_eq a b = Inl e'"
    then have b: "b = PyRaising TypeError" by auto
    from h getattr_profile_not_raising have "a \<noteq> PyRaising e'" by blast
    with h b have "e' = TypeError" by (cases a) auto
    then show "is_Exception e'" by simp
  qed
  have cmp: "getattr (ProfileObj ?p) ''profile_key'' = Inr (PyInt 42)"
    "getattr ?raising ''profile_key'' = Inr (PyRaising TypeError)"
    "py_eq (PyInt 42) (PyRaising TypeError) = Inl TypeError"
    by (simp_all add: profile_attrs_def new_EBPHProfileStruct_def)
  have three: "EBPHProfileStruct_eq ?p ?raising = Inr False"
    using T [where other = ?raising and name = "''profile_key''" and e = TypeError,
        THEN conjunct2, THEN conjunct2, THEN conjunct1, THEN mp, OF only_raising,
        THEN conjunct2, THEN mp] m cmp
    by blast
  have four: "EBPHProfileStruct_eq ?p ?interrupt = Inl KeyboardInterrupt"
    using T [where other = ?interrupt and e = KeyboardInterrupt,
        THEN conjunct2, THEN conjunct2, THEN conjunct2, THEN conjunct2, THEN conjunct1]
    by simp
  from one two three four show ?thesis by blast
qed

subsection \<open>Loading and storing a profile\<close>

lemma memmove_whole:
  "length src = length dst \<Longrightarrow> memmove dst src (length src) = (True, src)"
  by (simp add: memmove_def)

lemma data_struct_eta: "\<lparr>flags = flags d\<rparr> = (d :: EBPHProfileDataStruct)"
  by (cases d) simp

lemma copy_into_table_wf:
  "wf_data d \<Longrightarrow> copy_into_table table k d = Inr (table(k \<mapsto> d))"
  by (simp add: copy_into_table_def wf_data_def memmove_def new_EBPHProfileDataStruct_def
      data_struct_eta)

lemma copy_from_table_new:
  "copy_from_table table k new_EBPHProfileDataStruct =
     Inr (case table k of
            None \<Rightarrow> new_EBPHProfileDataStruct
          | Some d \<Rightarrow> \<lparr>flags = take flags_len (flags d)\<rparr>)"
  by (simp add: copy_from_table_def getitem_def memmove_def new_EBPHProfileDataStruct_def
      split: option.splits)

lemma load_into_bpf_wf:
  assumes "wf_data (train p)" "wf_data (test p)"
  shows "load_into_bpf p bpf =
     Inr (bpf\<lparr>profiles := (profiles bpf)(profile_key p \<mapsto>
                 \<lparr>leaf_status = status p, leaf_anomaly_count = anomaly_count p,
                  leaf_train_count = train_count p, leaf_last_mod_count = last_mod_count p,
                  leaf_sequences = sequences p, leaf_normal_time = normal_time p,
                  leaf_count = count p\<rparr>),
              training_data := (training_data bpf)(profile_key p \<mapsto> train p),
              testing_data := (testing_data bpf)(profile_key p \<mapsto> test p)\<rparr>)"
  using assms
  by (simp add: load_into_bpf_def copy_into_table_wf new_profile_leaf_def Let_def)

lemma from_bpf_present:
  assumes m: "calculate_profile_magic h ver = Inr m"
      and fits: "length (s_get exe_arg) \<le> PATH_MAX"
      and l: "profiles bpf (word_of_int key) = Some l"
  shows "\<exists>q. from_bpf h ver PATH_MAX bpf exe_arg key = Inr q \<and>
           magic q = word_of_nat m \<and> profile_key q = word_of_int key \<and>
           status q = leaf_status l \<and> anomaly_count q = leaf_anomaly_count l \<and>
           train_count q = leaf_train_count l \<and> last_mod_count q = leaf_last_mod_count l \<and>
           sequences q = leaf_sequences l \<and> normal_time q = leaf_normal_time l \<and>
           count q = leaf_count l \<and>
           train q = (case training_data bpf (word_of_int key) of
                        None \<Rightarrow> new_EBPHProfileDataStruct
                      | Some d \<Rightarrow> \<lparr>flags = take flags_len (flags d)\<rparr>) \<and>
           test q = (case testing_data bpf (word_of_int key) of
                       None \<Rightarrow> new_EBPHProfileDataStruct
                     | Some d \<Rightarrow> \<lparr>flags = take flags_len (flags d)\<rparr>) \<and>
           length (exe q) = PATH_MAX \<and> s_get (exe q) = s_get exe_arg"
proof -
  from fits have "length (s_get exe_arg) \<le> length (replicate PATH_MAX (0::byte))" by simp
  from s_set_fits [OF this] obtain buf where
    buf: "s_set (replicate PATH_MAX 0) exe_arg = Inr buf" "length buf = PATH_MAX"
      "s_get buf = s_get exe_arg"
    by auto
  show ?thesis
    by (simp add: from_bpf_def m l buf getitem_def new_EBPHProfileStruct_def
        copy_from_table_new Let_def)
qed

lemma from_bpf_absent:
  assumes "calculate_profile_magic h ver = Inr m"
      and fits: "length (s_get exe_arg) \<le> PATH_MAX"
      and "profiles bpf (word_of_int key) = None"
  shows "from_bpf h ver PATH_MAX bpf exe_arg key = Inl KeyError"
proof -
  from fits have "length (s_get exe_arg) \<le> length (replicate PATH_MAX (0::byte))" by simp
  from s_set_fits [OF this] obtain buf where
    buf: "s_set (replicate PATH_MAX 0) exe_arg = Inr buf"
    by auto
  show ?thesis
    by (simp add: from_bpf_def assms buf getitem_def new_EBPHProfileStruct_def Let_def)
qed

lemma from_bpf_too_long:
  assumes "calculate_profile_magic h ver = Inr m"
      and "PATH_MAX < length (s_get exe_arg)"
  shows "from_bpf h ver PATH_MAX bpf exe_arg key = Inl ValueError"
  using assms
  by (simp add: from_bpf_def s_set_too_long new_EBPHProfileStruct_def Let_def)

lemma s_get_length: "length (s_get buf) \<le> length buf"
  by (simp add: s_get_def length_takeWhile_le)

text \<open>
  Claim C1. Round trip: for a profile structure \<open>p\<close> whose magic is the magic number of
  the running version, \<open>load_into_bpf\<close> stores it in the three tables, and \<open>from_bpf\<close>
  with the executable path and the key of \<open>p\<close> then returns a profile in which magic,
  profile_key, status, anomaly_count, train_count, last_mod_count, sequences, normal_time,
  count, the train matrix, the test matrix and exe are those of \<open>p\<close>; \<open>__eq__\<close>
  returns \<open>True\<close> for the two profiles.
\<close>

theorem profile_round_trip:
  assumes wf: "wf_profile PATH_MAX p"
      and mg: "calculate_profile_magic h ver = Inr m"
      and same: "magic p = word_of_nat m"
  shows "\<exists>bpf' q.
           load_into_bpf p bpf = Inr bpf' \<and>
           from_bpf h ver PATH_MAX bpf' (s_get (exe p)) (uint (profile_key p)) = Inr q \<and>
           magic q = magic p \<and> profile_key q = profile_key p \<and> status q = status p \<and>
           anomaly_count q = anomaly_count p \<and> train_count q = train_count p \<and>
           last_mod_count q = last_mod_count p \<and> sequences q = sequences p \<and>
           normal_time q = normal_time p \<and> count q = count p \<and>
           train q = train p \<and> test q = test p \<and> s_get (exe q) = s_get (exe p) \<and>
           EBPHProfileStruct_eq q (ProfileObj p) = Inr True \<and>
           EBPHProfileStruct_eq p (ProfileObj q) = Inr True"
proof -
  let ?leaf = "\<lparr>leaf_status = status p, leaf_anomaly_count = anomaly_count p,
                 leaf_train_count = train_count p, leaf_last_mod_count = last_mod_count p,
                 leaf_sequences = sequences p, leaf_normal_time = normal_time p,
                 leaf_count = count p\<rparr>"
  let ?bpf = "bpf\<lparr>profiles := (profiles bpf)(profile_key p \<mapsto> ?leaf),
                   training_data := (training_data bpf)(profile_key p \<mapsto> train p),
                   testing_data := (testing_data bpf)(profile_key p \<mapsto> test p)\<rparr>"
  from wf have wfd: "wf_data (train p)" "wf_data (test p)" and len: "length (exe p) = PATH_MAX"
    by (simp_all add: wf_profile_def)
  have stored: "load_into_bpf p bpf = Inr ?bpf"
    using wfd by (rule load_into_bpf_wf)
  have key: "(word_of_int (uint (profile_key p)) :: u64) = profile_key p"
    by simp
  have fits: "length (s_get (s_get (exe p))) \<le> PATH_MAX"
    using s_get_length [of "exe p"] len by (simp add: s_get_idem)
  have found: "profiles ?bpf (word_of_int (uint (profile_key p))) = Some ?leaf"
    by simp
  from from_bpf_present [OF mg fits found] obtain q where
    q: "from_bpf h ver PATH_MAX ?bpf (s_get (exe p)) (uint (profile_key p)) = Inr q"
      "magic q = word_of_nat m" "profile_key q = profile_key p" "status q = status p"
      "anomaly_count q = anomaly_count p" "train_count q = train_count p"
      "last_mod_count q = last_mod_count p" "sequences q = sequences p"
      "normal_time q = normal_time p" "count q = count p"
      "train q = \<lparr>flags = take flags_len (flags (train p))\<rparr>"
      "test q = \<lparr>flags = take flags_len (flags (test p))\<rparr>"
      "s_get (exe q) = s_get (exe p)"
    by (auto simp: s_get_idem)
  have tr: "train q = train p" "test q = test p"
    using q(11,12) wfd by (simp_all add: wf_data_def data_struct_eta)
  have eq: "EBPHProfileStruct_eq q (ProfileObj p) = Inr True"
    "EBPHProfileStruct_eq p (ProfileObj q) = Inr True"
    using q by (simp_all add: eq_two_profiles)
  from stored q same tr eq show ?thesis
    by (intro exI [of _ ?bpf] exI [of _ q]) simp
qed

text \<open>
  A concrete instance: the outcome of \<open>from_bpf\<close> does not depend on the hash, so the length
  of the message stands for it; the version \<open>0.6.1\<close> then has the magic number 3.
\<close>

lemma magic_example: "calculate_profile_magic length ''0.6.1'' = Inr 3"
proof -
  have s: "take 2 (split ''0.6.1'' (CHR ''.'')) = [''0'', ''6'']"
    by (simp add: split_def)
  have enc: "encode_ascii (join ''.'' [''0'', ''6'']) = Inr (map of_char ''0.6'')"
    by (simp add: encode_ascii_def)
  have len: "length (map of_char ''0.6'' :: bytes) = 3"
    by simp
  have "(3::nat) AND 0xFFFFFFFFFFFFFFFF = 3"
    by simp
  then show ?thesis
    unfolding calculate_profile_magic_def s enc by (simp only: sum.case len)
qed

theorem profile_round_trip_witness:
  "wf_profile 4096
     (new_EBPHProfileStruct 4096
        \<lparr>magic := 3, profile_key := 42, status := 4, count := 10,
         train := \<lparr>flags = replicate flags_len 1\<rparr>,
         exe := [47, 98, 105, 110, 47, 108, 115] @ replicate 4089 0\<rparr>) \<and>
   calculate_profile_magic length ''0.6.1'' = Inr 3 \<and>
   (\<exists>bpf' q.
      load_into_bpf
        (new_EBPHProfileStruct 4096
           \<lparr>magic := 3, profile_key := 42, status := 4, count := 10,
            train := \<lparr>flags = replicate flags_len 1\<rparr>,
            exe := [47, 98, 105, 110, 47, 108, 115] @ replicate 4089 0\<rparr>)
        \<lparr>profiles = Map.empty, training_data = Map.empty, testing_data = Map.empty\<rparr> = Inr bpf' \<and>
      from_bpf length ''0.6.1'' 4096 bpf' [47, 98, 105, 110, 47, 108, 115] 42 = Inr q \<and>
      magic q = 3 \<and> profile_key q = 42 \<and> status q = 4 \<and> count q = 10 \<and>
      train q = \<lparr>flags = replicate flags_len 1\<rparr> \<and>
      test q = new_EBPHProfileDataStruct \<and>
      s_get (exe q) = [47, 98, 105, 110, 47, 108, 115])"
proof -
  let ?p = "new_EBPHProfileStruct 4096
        \<lparr>magic := 3, profile_key := 42, status := 4, count := 10,
         train := \<lparr>flags = replicate flags_len 1\<rparr>,
         exe := [47, 98, 105, 110, 47, 108, 115] @ replicate 4089 0\<rparr>"
  let ?b = "\<lparr>profiles = Map.empty, training_data = Map.empty, testing_data = Map.empty\<rparr>"
  have wf: "wf_profile 4096 ?p"
    by (simp add: wf_profile_def wf_data_def new_EBPHProfileStruct_def
        new_EBPHProfileDataStruct_def)
  have mg: "magic ?p = word_of_nat 3"
    by simp
  have ex: "s_get (exe ?p) = [47, 98, 105, 110, 47, 108, 115]"
    by (simp add: s_get_def)
  have fields: "uint (profile_key ?p) = 42" "profile_key ?p = 42" "status ?p = 4" "count ?p = 10"
    "magic ?p = 3" "train ?p = \<lparr>flags = replicate flags_len 1\<rparr>"
    "test ?p = new_EBPHProfileDataStruct"
    by (simp_all add: new_EBPHProfileStruct_def)
  have u42: "uint (42 :: u64) = 42"
    by simp
  from profile_round_trip [OF wf magic_example mg, of ?b]
  obtain bpf' q where
    "load_into_bpf ?p ?b = Inr bpf'"
    "from_bpf length ''0.6.1'' 4096 bpf' (s_get (exe ?p)) (uint (profile_key ?p)) = Inr q"
    "magic q = magic ?p" "profile_key q = profile_key ?p" "status q = status ?p"
    "count q = count ?p" "train q = train ?p" "test q = test ?p"
    "s_get (exe q) = s_get (exe ?p)"
    by blast
  then have "load_into_bpf ?p ?b = Inr bpf' \<and>
      from_bpf length ''0.6.1'' 4096 bpf' [47, 98, 105, 110, 47, 108, 115] 42 = Inr q \<and>
      magic q = 3 \<and> profile_key q = 42 \<and> status q = 4 \<and> count q = 10 \<and>
      train q = \<lparr>flags = replicate flags_len 1\<rparr> \<and>
      test q = new_EBPHProfileDataStruct \<and>
      s_get (exe q) = [47, 98, 105, 110, 47, 108, 115]"
    by (simp only: ex fields u42 simp_thms)
  with wf magic_example show ?thesis by blast
qed

text \<open>
  Claim C9, amended. When the bytes of \<open>exe\<close> before its first NUL are at most \<open>PATH_MAX\<close>,
  \<open>from_bpf\<close> raises \<open>KeyError\<close> exactly when the key is absent from the profiles table;
  when the key is present it raises nothing and returns a profile with magic, profile_key,
  exe and the seven header fields filled in, whose train (test) matrix is all zeros if the
  key is absent from the training (testing) table. A longer \<open>exe\<close> raises \<open>ValueError\<close>
  when it is stored in the profile, before any table is read.
\<close>

theorem from_bpf_key_error:
  assumes mg: "calculate_profile_magic h ver = Inr m"
  shows "(length (s_get exe_arg) \<le> PATH_MAX \<longrightarrow>
            (from_bpf h ver PATH_MAX bpf exe_arg key = Inl KeyError) =
              (profiles bpf (word_of_int key) = None) \<and>
            (\<forall>l. profiles bpf (word_of_int key) = Some l \<longrightarrow>
               (\<exists>q. from_bpf h ver PATH_MAX bpf exe_arg key = Inr q \<and>
                    magic q = word_of_nat m \<and> profile_key q = word_of_int key \<and>
                    s_get (exe q) = s_get exe_arg \<and>
                    status q = leaf_status l \<and> anomaly_count q = leaf_anomaly_count l \<and>
                    train_count q = leaf_train_count l \<and>
                    last_mod_count q = leaf_last_mod_count l \<and>
                    sequences q = leaf_sequences l \<and> normal_time q = leaf_normal_time l \<and>
                    count q = leaf_count l \<and>
                    (training_data bpf (word_of_int key) = None \<longrightarrow>
                       flags (train q) = replicate flags_len 0) \<and>
                    (testing_data bpf (word_of_int key) = None \<longrightarrow>
                       flags (test q) = replicate flags_len 0)))) \<and>
         (PATH_MAX < length (s_get exe_arg) \<longrightarrow>
            from_bpf h ver PATH_MAX bpf exe_arg key = Inl ValueError)"
proof (intro conjI impI allI)
  assume fits: "length (s_get exe_arg) \<le> PATH_MAX"
  show "(from_bpf h ver PATH_MAX bpf exe_arg key = Inl KeyError) =
          (profiles bpf (word_of_int key) = None)"
  proof (cases "profiles bpf (word_of_int key)")
    case None
    with from_bpf_absent [OF mg fits] show ?thesis by simp
  next
    case (Some l)
    from from_bpf_present [OF mg fits Some] obtain q
      where "from_bpf h ver PATH_MAX bpf exe_arg key = Inr q" by blast
    with Some show ?thesis by simp
  qed
next
  fix l
  assume fits: "length (s_get exe_arg) \<le> PATH_MAX"
    and l: "profiles bpf (word_of_int key) = Some l"
  from from_bpf_present [OF mg fits l] obtain q where
    q: "from_bpf h ver PATH_MAX bpf exe_arg key = Inr q"
      "magic q = word_of_nat m" "profile_key q = word_of_int key"
      "status q = leaf_status l" "anomaly_count q = leaf_anomaly_count l"
      "train_count q = leaf_train_count l" "last_mod_count q = leaf_last_mod_count l"
      "sequences q = leaf_sequences l" "normal_time q = leaf_normal_time l"
      "count q = leaf_count l"
      "train q = (case training_data bpf (word_of_int key) of
                    None \<Rightarrow> new_EBPHProfileDataStruct
                  | Some d \<Rightarrow> \<lparr>flags = take flags_len (flags d)\<rparr>)"
      "test q = (case testing_data bpf (word_of_int key) of
                   None \<Rightarrow> new_EBPHProfileDataStruct
                 | Some d \<Rightarrow> \<lparr>flags = take flags_len (flags d)\<rparr>)"
      "s_get (exe q) = s_get exe_arg"
    by blast
  have "training_data bpf (word_of_int key) = None \<longrightarrow> flags (train q) = replicate flags_len 0"
    "testing_data bpf (word_of_int key) = None \<longrightarrow> flags (test q) = replicate flags_len 0"
    using q(11,12) by (simp_all add: new_EBPHProfileDataStruct_def)
  with q show "\<exists>q. from_bpf h ver PATH_MAX bpf exe_arg key = Inr q \<and>
                    magic q = word_of_nat m \<and> profile_key q = word_of_int key \<and>
                    s_get (exe q) = s_get exe_arg \<and>
                    status q = leaf_status l \<and> anomaly_count q = leaf_anomaly_count l \<and>
                    train_count q = leaf_train_count l \<and>
                    last_mod_count q = leaf_last_mod_count l \<and>
                    sequences q = leaf_sequences l \<and> normal_time q = leaf_normal_time l \<and>
                    count q = leaf_count l \<and>
                    (training_data bpf (word_of_int key) = None \<longrightarrow>
                       flags (train q) = replicate flags_len 0) \<and>
                    (testing_data bpf (word_of_int key) = None \<longrightarrow>
                       flags (test q) = replicate flags_len 0)"
    by (intro exI [of _ q]) simp
next
  assume "PATH_MAX < length (s_get exe_arg)"
  with mg show "from_bpf h ver PATH_MAX bpf exe_arg key = Inl ValueError"
    by (rule from_bpf_too_long)
qed

lemma s_get_long_example: "s_get (replicate 4097 (97::byte)) = replicate 4097 97"
  by (simp add: s_get_def takeWhile_replicate)

text \<open>
  Claim C9 as stated fails for a path longer than the capacity of \<open>exe\<close>: with 4097
  bytes and \<open>PATH_MAX\<close> = 4096 the call raises \<open>ValueError\<close>, not \<open>KeyError\<close>, for a key
  that is absent, and raises \<open>ValueError\<close> for a key that is present.
\<close>

theorem from_bpf_key_error_counterexample:
  "profiles \<lparr>profiles = Map.empty, training_data = Map.empty, testing_data = Map.empty\<rparr>
     (word_of_int 42) = None \<and>
   from_bpf length ''0.6.1'' 4096
     \<lparr>profiles = Map.empty, training_data = Map.empty, testing_data = Map.empty\<rparr>
     (replicate 4097 97) 42 = Inl ValueError \<and>
   from_bpf length ''0.6.1'' 4096
     \<lparr>profiles = Map.empty, training_data = Map.empty, testing_data = Map.empty\<rparr>
     (replicate 4097 97) 42 \<noteq> Inl KeyError \<and>
   profiles \<lparr>profiles = [42 \<mapsto> new_profile_leaf], training_data = Map.empty,
             testing_data = Map.empty\<rparr> (word_of_int 42) = Some new_profile_leaf \<and>
   from_bpf length ''0.6.1'' 4096
     \<lparr>profiles = [42 \<mapsto> new_profile_leaf], training_data = Map.empty, testing_data = Map.empty\<rparr>
     (replicate 4097 97) 42 = Inl ValueError"
proof -
  have long: "(4096::nat) < length (s_get (replicate 4097 (97::byte)))"
    by (simp add: s_get_long_example)
  have "from_bpf length ''0.6.1'' 4096 bpf (replicate 4097 97) 42 = Inl ValueError" for bpf
    using magic_example long by (rule from_bpf_too_long)
  then show ?thesis by simp
qed

theorem from_bpf_key_error_witness:
  "calculate_profile_magic length ''0.6.1'' = Inr 3 \<and>
   from_bpf length ''0.6.1'' 4096
     \<lparr>profiles = Map.empty, training_data = Map.empty, testing_data = Map.empty\<rparr>
     [47, 98, 105, 110, 47, 108, 115] 42 = Inl KeyError \<and>
   (\<exists>q. from_bpf length ''0.6.1'' 4096
          \<lparr>profiles = [42 \<mapsto> new_profile_leaf\<lparr>leaf_status := 4, leaf_count := 10\<rparr>],
           training_data = Map.empty, testing_data = Map.empty\<rparr>
          [47, 98, 105, 110, 47, 108, 115] 42 = Inr q \<and>
        magic q = 3 \<and> profile_key q = 42 \<and> status q = 4 \<and> count q = 10 \<and>
        s_get (exe q) = [47, 98, 105, 110, 47, 108, 115] \<and>
        flags (train q) = replicate flags_len 0 \<and> flags (test q) = replicate flags_len 0) \<and>
   from_bpf length ''0.6.1'' 4096
     \<lparr>profiles = Map.empty, training_data = Map.empty, testing_data = Map.empty\<rparr>
     (replicate 4097 97) 42 = Inl ValueError"
proof -
  let ?e = "\<lparr>profiles = Map.empty, training_data = Map.empty, testing_data = Map.empty\<rparr>"
  let ?l = "new_profile_leaf\<lparr>leaf_status := 4, leaf_count := 10\<rparr>"
  let ?b = "\<lparr>profiles = [42 \<mapsto> ?l], training_data = Map.empty, testing_data = Map.empty\<rparr>"
  let ?exe = "[47, 98, 105, 110, 47, 108, 115] :: bytes"
  have g: "s_get ?exe = ?exe"
    by (simp add: s_get_def)
  have fits: "length (s_get ?exe) \<le> 4096"
    by (simp add: g)
  have long: "(4096::nat) < length (s_get (replicate 4097 (97::byte)))"
    by (simp add: s_get_long_example)
  note T = from_bpf_key_error [OF magic_example]
  have absent: "from_bpf length ''0.6.1'' 4096 ?e ?exe 42 = Inl KeyError"
    using T [of ?exe 4096 ?e 42, THEN conjunct1, rule_format, OF fits, THEN conjunct1]
    by simp
  have found: "profiles ?b (word_of_int 42) = Some ?l"
    by simp
  have none: "training_data ?b (word_of_int 42) = None" "testing_data ?b (word_of_int 42) = None"
    by simp_all
  from T [of ?exe 4096 ?b 42, THEN conjunct1, rule_format, OF fits, THEN conjunct2,
      rule_format, OF found]
  obtain q where
    "from_bpf length ''0.6.1'' 4096 ?b ?exe 42 = Inr q"
    "magic q = word_of_nat 3" "profile_key q = word_of_int 42" "s_get (exe q) = s_get ?exe"
    "status q = leaf_status ?l" "count q = leaf_count ?l"
    "flags (train q) = replicate flags_len 0" "flags (test q) = replicate flags_len 0"
    using none by blast
  then have present: "\<exists>q. from_bpf length ''0.6.1'' 4096 ?b ?exe 42 = Inr q \<and>
        magic q = 3 \<and> profile_key q = 42 \<and> status q = 4 \<and> count q = 10 \<and>
        s_get (exe q) = ?exe \<and>
        flags (train q) = replicate flags_len 0 \<and> flags (test q) = replicate flags_len 0"
    by (intro exI [of _ q]) (simp add: g)
  have toolong: "from_bpf length ''0.6.1'' 4096 ?e (replicate 4097 97) 42 = Inl ValueError"
    using T [of "replicate 4097 97" 4096 ?e 42, THEN conjunct2, rule_format, OF long] .
  from magic_example absent present toolong show ?thesis by blast
qed

subsection \<open>The commands\<close>

lemma length_or_flags: "length (or_flags a b) = flags_len"
  by (simp add: or_flags_def)

lemma byte_at_or_flags:
  "i < flags_len \<Longrightarrow> byte_at (or_flags a b) i = byte_at a i OR byte_at b i"
  by (simp add: or_flags_def byte_at_def)

lemma tolerize_profile_found:
  assumes "profiles (maps e) k = Some l"
  shows "tolerize_profile k e =
     (Success,
      e\<lparr>maps := (maps e)
           \<lparr>profiles := (profiles (maps e))(k \<mapsto> l\<lparr>leaf_anomaly_count := 0\<rparr>),
            training_data := (training_data (maps e))(k \<mapsto>
               \<lparr>flags = or_flags (matrix_of (training_data (maps e)) k)
                                 (matrix_of (testing_data (maps e)) k)\<rparr>)\<rparr>\<rparr>)"
  using assms by (simp add: tolerize_profile_def Let_def)

lemma tolerize_profile_missing:
  "profiles (maps e) k = None \<Longrightarrow> tolerize_profile k e = (ProfileNotFound, e)"
  by (simp add: tolerize_profile_def)

lemma status_code_zero: "(status_code st = 0) = (st = Success)"
  by (cases st) (simp_all add: ENOENT_def EINVAL_def)

text \<open>
  Claim C4. Tolerize convergence: after a successful \<open>tolerize_profile\<close> (status code 0,
  which needs the profile to exist), every bit set in the profile's test matrix is also
  set in its train matrix, the train matrix is the bitwise OR of the old train matrix and
  the test matrix, the test matrix is unchanged, and the profile's \<open>anomaly_count\<close> is 0.
\<close>

theorem tolerize_convergence:
  assumes run: "tolerize_profile k e = (st, e')"
      and ok: "status_code st = 0"
  shows "(\<forall>i<flags_len. \<forall>n.
            bit (byte_at (matrix_of (testing_data (maps e')) k) i) n
              \<longrightarrow> bit (byte_at (matrix_of (training_data (maps e')) k) i) n) \<and>
         matrix_of (training_data (maps e')) k =
           or_flags (matrix_of (training_data (maps e)) k) (matrix_of (testing_data (maps e)) k) \<and>
         matrix_of (testing_data (maps e')) k = matrix_of (testing_data (maps e)) k \<and>
         (\<exists>l. profiles (maps e') k = Some l \<and> leaf_anomaly_count l = 0) \<and>
         k \<in> dom (profiles (maps e))"
proof (cases "profiles (maps e) k")
  case None
  with run have "st = ProfileNotFound"
    by (simp add: tolerize_profile_missing)
  with ok show ?thesis
    by (simp add: ENOENT_def)
next
  case (Some l)
  let ?m = "or_flags (matrix_of (training_data (maps e)) k) (matrix_of (testing_data (maps e)) k)"
  from run Some have e': "e' = e\<lparr>maps := (maps e)
           \<lparr>profiles := (profiles (maps e))(k \<mapsto> l\<lparr>leaf_anomaly_count := 0\<rparr>),
            training_data := (training_data (maps e))(k \<mapsto> \<lparr>flags = ?m\<rparr>)\<rparr>\<rparr>"
    by (simp add: tolerize_profile_found)
  have tr: "matrix_of (training_data (maps e')) k = ?m"
    by (simp add: e' matrix_of_def)
  have te: "matrix_of (testing_data (maps e')) k = matrix_of (testing_data (maps e)) k"
    by (simp add: e' matrix_of_def)
  have bits: "bit (byte_at (matrix_of (training_data (maps e')) k) i) n"
    if "i < flags_len" "bit (byte_at (matrix_of (testing_data (maps e')) k) i) n" for i n
    using that by (simp add: tr te byte_at_or_flags bit_or_iff)
  have cnt: "\<exists>l. profiles (maps e') k = Some l \<and> leaf_anomaly_count l = 0"
    by (simp add: e')
  from bits tr te cnt Some show ?thesis by auto
qed

theorem tolerize_convergence_witness:
  "status_code (fst (tolerize_profile 42
      \<lparr>maps = \<lparr>profiles = [42 \<mapsto> new_profile_leaf\<lparr>leaf_anomaly_count := 3\<rparr>],
               training_data = [42 \<mapsto> \<lparr>flags = replicate flags_len 1\<rparr>],
               testing_data = [42 \<mapsto> \<lparr>flags = replicate flags_len 2\<rparr>]\<rparr>,
       task_states = Map.empty, pathnames = Map.empty, settings = Map.empty\<rparr>)) = 0 \<and>
   (\<exists>l. profiles (maps (snd (tolerize_profile 42
      \<lparr>maps = \<lparr>profiles = [42 \<mapsto> new_profile_leaf\<lparr>leaf_anomaly_count := 3\<rparr>],
               training_data = [42 \<mapsto> \<lparr>flags = replicate flags_len 1\<rparr>],
               testing_data = [42 \<mapsto> \<lparr>flags = replicate flags_len 2\<rparr>]\<rparr>,
       task_states = Map.empty, pathnames = Map.empty, settings = Map.empty\<rparr>))) 42 = Some l \<and>
        leaf_anomaly_count l = 0) \<and>
   bit (byte_at (matrix_of (training_data (maps (snd (tolerize_profile 42
      \<lparr>maps = \<lparr>profiles = [42 \<mapsto> new_profile_leaf\<lparr>leaf_anomaly_count := 3\<rparr>],
               training_data = [42 \<mapsto> \<lparr>flags = replicate flags_len 1\<rparr>],
               testing_data = [42 \<mapsto> \<lparr>flags = replicate flags_len 2\<rparr>]\<rparr>,
       task_states = Map.empty, pathnames = Map.empty, settings = Map.empty\<rparr>)))) 42) 5) 1"
proof -
  let ?e = "\<lparr>maps = \<lparr>profiles = [42 \<mapsto> new_profile_leaf\<lparr>leaf_anomaly_count := 3\<rparr>],
               training_data = [42 \<mapsto> \<lparr>flags = replicate flags_len 1\<rparr>],
               testing_data = [42 \<mapsto> \<lparr>flags = replicate flags_len 2\<rparr>]\<rparr>,
       task_states = Map.empty, pathnames = Map.empty, settings = Map.empty\<rparr>"
  let ?r = "tolerize_profile 42 ?e"
  have run: "?r = (fst ?r, snd ?r)"
    by simp
  have ok: "status_code (fst ?r) = 0"
    by (simp add: tolerize_profile_def Let_def)
  note T = tolerize_convergence [OF run ok]
  have five: "(5::nat) < flags_len"
    by (simp add: flags_len_value)
  have "matrix_of (testing_data (maps (snd ?r))) 42 = replicate flags_len 2"
    using T by (simp add: matrix_of_def)
  then have "bit (byte_at (matrix_of (testing_data (maps (snd ?r))) 42) 5) 1"
    using five by (simp add: byte_at_def)
  with T five have "bit (byte_at (matrix_of (training_data (maps (snd ?r))) 42) 5) 1"
    by blast
  with ok T show ?thesis by blast
qed

lemma lib_signatures:
  "map (\<lambda>b. (c_name b, argtypes b, restype b)) Lib =
     [(''set_setting'', [c_int, c_uint64], Some c_int),
      (''normalize_profile'', [c_uint64], Some c_int),
      (''normalize_process'', [c_uint32], Some c_int),
      (''sensitize_profile'', [c_uint64], Some c_int),
      (''sensitize_process'', [c_uint32], Some c_int),
      (''tolerize_profile'', [c_uint64], Some c_int),
      (''tolerize_process'', [c_uint32], Some c_int),
      (''bootstrap_process'', [c_uint64, c_uint32, c_uint32, c_char_p], Some c_int)]"
  by (simp add: Lib_def command_def)

lemma lib_simple: "\<forall>b \<in> set Lib. list_all is_simple (argtypes b) \<and> restype b = Some c_int"
  by (simp add: Lib_def command_def)

lemma lib_names:
  "c_name ` set Lib =
     {''set_setting'', ''normalize_profile'', ''normalize_process'', ''sensitize_profile'',
      ''sensitize_process'', ''tolerize_profile'', ''tolerize_process'', ''bootstrap_process''}"
proof -
  have "c_name ` set Lib = set (map (\<lambda>t. fst t) (map (\<lambda>b. (c_name b, argtypes b, restype b)) Lib))"
    by (simp add: image_image o_def)
  then show ?thesis
    by (simp only: lib_signatures) auto
qed

lemma call_name_bound: "call_name c \<in> c_name ` set Lib"
  unfolding lib_names by (cases c) simp_all

lemma status_code_sign: "status_code st = 0 \<or> status_code st < 0"
  by (cases st) (simp_all add: ENOENT_def EINVAL_def)

lemma status_code_range: "- (2 ^ 31) \<le> status_code st \<and> status_code st < 2 ^ 31"
  by (cases st) (simp_all add: ENOENT_def EINVAL_def)

lemma profile_command_unchanged:
  "fst (normalize_profile k e) \<noteq> Success \<Longrightarrow> snd (normalize_profile k e) = e"
  "fst (sensitize_profile k e) \<noteq> Success \<Longrightarrow> snd (sensitize_profile k e) = e"
  "fst (tolerize_profile k e) \<noteq> Success \<Longrightarrow> snd (tolerize_profile k e) = e"
  by (auto simp: normalize_profile_def sensitize_profile_def tolerize_profile_def Let_def
      split: option.splits)

lemma for_process_unchanged:
  assumes "\<And>k. fst (f k e) \<noteq> Success \<Longrightarrow> snd (f k e) = e"
      and "fst (for_process f pid e) \<noteq> Success"
  shows "snd (for_process f pid e) = e"
  using assms by (auto simp: for_process_def split: option.splits)

lemma run_command_unchanged:
  "fst (run_command P c e) \<noteq> Success \<Longrightarrow> snd (run_command P c e) = e"
proof (cases c)
  case (Set_setting key v)
  then show "fst (run_command P c e) \<noteq> Success \<Longrightarrow> snd (run_command P c e) = e"
    by (simp add: set_setting_def split: if_splits)
next
  case (Bootstrap_process k pid tgid pathname)
  then show "fst (run_command P c e) \<noteq> Success \<Longrightarrow> snd (run_command P c e) = e"
    by (simp add: bootstrap_process_def Let_def split: option.splits if_splits)
qed (auto simp: normalize_process_def sensitize_process_def tolerize_process_def
      intro: profile_command_unchanged for_process_unchanged)

lemma profile_command_status:
  "fst (normalize_profile k e) =
     (if k \<in> dom (profiles (maps e)) then Success else ProfileNotFound)"
  "fst (sensitize_profile k e) =
     (if k \<in> dom (profiles (maps e)) then Success else ProfileNotFound)"
  "fst (tolerize_profile k e) =
     (if k \<in> dom (profiles (maps e)) then Success else ProfileNotFound)"
  by (auto simp: normalize_profile_def sensitize_profile_def tolerize_profile_def Let_def
      split: option.splits)

lemma settings_values: "set (map snd EBPH_SETTINGS) = {0..7}"
  by (auto simp: EBPH_SETTINGS_def EBPH_SETTINGS_decl_def enum_members_def)

lemma set_setting_status:
  "fst (set_setting key v e) = (if sint key \<in> {0..7} then Success else InvalidArgument)"
  unfolding set_setting_def settings_values by simp

lemma other_command_status:
  "fst (bootstrap_process P k pid tgid pathname e) =
     (if malformed P pathname then InvalidArgument else Success)"
  "fst (for_process f pid e) =
     (case task_states e pid of
        None \<Rightarrow> ProfileNotFound
      | Some ctx \<Rightarrow> fst (f (ctx_profile_key ctx) e))"
  by (auto simp: bootstrap_process_def malformed_def for_process_def Let_def
      split: option.splits)

text \<open>
  Claim C5. The eight commands are bound with exactly the argument types of the claim,
  all of them scalar ctypes types, and with the result type \<open>c_int\<close>. Every call returns
  an integer of the \<open>c_int\<close> range that is 0 or negative: 0 exactly on success, and
  negative on failure, when the state is left as it was. A \<open>*_profile\<close> command fails
  exactly when the profile is not found, a \<open>*_process\<close> command when the task has no
  context or its profile is not found, \<open>set_setting\<close> for an unrecognized key and
  \<open>bootstrap_process\<close> for a malformed pathname.
\<close>

theorem commands_return_status:
  "map (\<lambda>b. (c_name b, argtypes b, restype b)) Lib =
     [(''set_setting'', [c_int, c_uint64], Some c_int),
      (''normalize_profile'', [c_uint64], Some c_int),
      (''normalize_process'', [c_uint32], Some c_int),
      (''sensitize_profile'', [c_uint64], Some c_int),
      (''sensitize_process'', [c_uint32], Some c_int),
      (''tolerize_profile'', [c_uint64], Some c_int),
      (''tolerize_process'', [c_uint32], Some c_int),
      (''bootstrap_process'', [c_uint64, c_uint32, c_uint32, c_char_p], Some c_int)] \<and>
   (\<forall>b \<in> set Lib. list_all is_simple (argtypes b) \<and> restype b = Some c_int) \<and>
   call_name c \<in> c_name ` set Lib \<and>
   (fst (call P c e) = 0 \<or> fst (call P c e) < 0) \<and>
   (fst (call P c e) = 0) = (fst (run_command P c e) = Success) \<and>
   (fst (call P c e) < 0 \<longrightarrow> snd (call P c e) = e) \<and>
   - (2 ^ 31) \<le> fst (call P c e) \<and> fst (call P c e) < 2 ^ 31 \<and>
   fst (run_command P (Set_setting key v) e) =
     (if sint key \<in> {0..7} then Success else InvalidArgument) \<and>
   fst (run_command P (Normalize_profile k) e) =
     (if k \<in> dom (profiles (maps e)) then Success else ProfileNotFound) \<and>
   fst (run_command P (Sensitize_profile k) e) =
     (if k \<in> dom (profiles (maps e)) then Success else ProfileNotFound) \<and>
   fst (run_command P (Tolerize_profile k) e) =
     (if k \<in> dom (profiles (maps e)) then Success else ProfileNotFound) \<and>
   fst (run_command P (Normalize_process pid) e) =
     (case task_states e pid of
        None \<Rightarrow> ProfileNotFound
      | Some ctx \<Rightarrow> fst (run_command P (Normalize_profile (ctx_profile_key ctx)) e)) \<and>
   fst (run_command P (Sensitize_process pid) e) =
     (case task_states e pid of
        None \<Rightarrow> ProfileNotFound
      | Some ctx \<Rightarrow> fst (run_command P (Sensitize_profile (ctx_profile_key ctx)) e)) \<and>
   fst (run_command P (Tolerize_process pid) e) =
     (case task_states e pid of
        None \<Rightarrow> ProfileNotFound
      | Some ctx \<Rightarrow> fst (run_command P (Tolerize_profile (ctx_profile_key ctx)) e)) \<and>
   fst (run_command P (Bootstrap_process k pid tgid pathname) e) =
     (if malformed P pathname then InvalidArgument else Success)"
proof -
  have code: "fst (call P c e) = status_code (fst (run_command P c e))"
    and state: "snd (call P c e) = snd (run_command P c e)"
    by (simp_all add: call_def split: prod.splits)
  have sign: "fst (call P c e) = 0 \<or> fst (call P c e) < 0"
    unfolding code by (rule status_code_sign)
  have zero: "(fst (call P c e) = 0) = (fst (run_command P c e) = Success)"
    unfolding code by (rule status_code_zero)
  have unchanged: "fst (call P c e) < 0 \<longrightarrow> snd (call P c e) = e"
  proof
    assume "fst (call P c e) < 0"
    with zero have "fst (run_command P c e) \<noteq> Success" by auto
    then show "snd (call P c e) = e"
      unfolding state by (rule run_command_unchanged)
  qed
  have range: "- (2 ^ 31) \<le> fst (call P c e)" "fst (call P c e) < 2 ^ 31"
    unfolding code using status_code_range [of "fst (run_command P c e)"] by simp_all
  have direct:
    "fst (run_command P (Set_setting key v) e) =
       (if sint key \<in> {0..7} then Success else InvalidArgument)"
    "fst (run_command P (Normalize_profile k) e) =
       (if k \<in> dom (profiles (maps e)) then Success else ProfileNotFound)"
    "fst (run_command P (Sensitize_profile k) e) =
       (if k \<in> dom (profiles (maps e)) then Success else ProfileNotFound)"
    "fst (run_command P (Tolerize_profile k) e) =
       (if k \<in> dom (profiles (maps e)) then Success else ProfileNotFound)"
    "fst (run_command P (Bootstrap_process k pid tgid pathname) e) =
       (if malformed P pathname then InvalidArgument else Success)"
    by (simp_all only: run_command.simps profile_command_status other_command_status
        set_setting_status)
  have process:
    "fst (run_command P (Normalize_process pid) e) =
       (case task_states e pid of
          None \<Rightarrow> ProfileNotFound
        | Some ctx \<Rightarrow> fst (run_command P (Normalize_profile (ctx_profile_key ctx)) e))"
    "fst (run_command P (Sensitize_process pid) e) =
       (case task_states e pid of
          None \<Rightarrow> ProfileNotFound
        | Some ctx \<Rightarrow> fst (run_command P (Sensitize_profile (ctx_profile_key ctx)) e))"
    "fst (run_command P (Tolerize_process pid) e) =
       (case task_states e pid of
          None \<Rightarrow> ProfileNotFound
        | Some ctx \<Rightarrow> fst (run_command P (Tolerize_profile (ctx_profile_key ctx)) e))"
    by (simp_all only: run_command.simps normalize_process_def sensitize_process_def
        tolerize_process_def other_command_status)
  from lib_signatures lib_simple call_name_bound [of c] sign zero unchanged range direct process
  show ?thesis by blast
qed

theorem commands_return_status_witness:
  "fst (call 4096 (Tolerize_profile 42)
      \<lparr>maps = \<lparr>profiles = [42 \<mapsto> new_profile_leaf], training_data = Map.empty,
               testing_data = Map.empty\<rparr>,
       task_states = Map.empty, pathnames = Map.empty, settings = Map.empty\<rparr>) = 0 \<and>
   fst (call 4096 (Tolerize_profile 7)
      \<lparr>maps = \<lparr>profiles = [42 \<mapsto> new_profile_leaf], training_data = Map.empty,
               testing_data = Map.empty\<rparr>,
       task_states = Map.empty, pathnames = Map.empty, settings = Map.empty\<rparr>) = - 2 \<and>
   snd (call 4096 (Tolerize_profile 7)
      \<lparr>maps = \<lparr>profiles = [42 \<mapsto> new_profile_leaf], training_data = Map.empty,
               testing_data = Map.empty\<rparr>,
       task_states = Map.empty, pathnames = Map.empty, settings = Map.empty\<rparr>) =
      \<lparr>maps = \<lparr>profiles = [42 \<mapsto> new_profile_leaf], training_data = Map.empty,
               testing_data = Map.empty\<rparr>,
       task_states = Map.empty, pathnames = Map.empty, settings = Map.empty\<rparr> \<and>
   list_all is_simple (argtypes (command ''set_setting''
      [(''key'', c_int), (''value'', c_uint64), (''return'', c_int)]))"
proof -
  let ?e = "\<lparr>maps = \<lparr>profiles = [42 \<mapsto> new_profile_leaf], training_data = Map.empty,
               testing_data = Map.empty\<rparr>,
       task_states = Map.empty, pathnames = Map.empty, settings = Map.empty\<rparr>"
  note T = commands_return_status [where P = 4096 and e = ?e]
  have s: "fst (run_command 4096 (Tolerize_profile 42) ?e) = Success"
    using T [where k = 42] by simp
  have one: "fst (call 4096 (Tolerize_profile 42) ?e) = 0"
    using T [where c = "Tolerize_profile 42"] s by blast
  have two: "fst (call 4096 (Tolerize_profile 7) ?e) = - 2"
    by (simp add: call_def tolerize_profile_def ENOENT_def)
  then have "fst (call 4096 (Tolerize_profile 7) ?e) < 0"
    by simp
  then have three: "snd (call 4096 (Tolerize_profile 7) ?e) = ?e"
    using T [where c = "Tolerize_profile 7"] by blast
  have "command ''set_setting'' [(''key'', c_int), (''value'', c_uint64), (''return'', c_int)]
          \<in> set Lib"
    by (simp add: Lib_def)
  then have four: "list_all is_simple (argtypes (command ''set_setting''
      [(''key'', c_int), (''value'', c_uint64), (''return'', c_int)]))"
    using T by blast
  from one two three four show ?thesis by blast
qed

end
